theory Spec2Isabelle
  imports Main
begin

section \<open>Build metadata for extension builds: a model of \<open>scripts/create_build_metadata.py\<close>\<close>

text \<open>
  The script gathers version information from two git repositories and from a built
  binary, assembles a dictionary of eleven entries and writes it as JSON.  Everything it
  asks of its surroundings (the file system, the subprocesses, the clock) is a field of
  the record \<open>world\<close>; everything it does to them (running a subprocess, printing,
  writing the file) is recorded in the record \<open>pstate\<close>, which every function
  takes and returns.  An exception is the left summand of the result; the calls into the
  library that can raise (the working directory, an existence test, a subprocess, the
  directory and the file, a \<open>print\<close>) are answered by the world with the exception or
  with the value.

  A Python \<open>str\<close> is a \<open>string\<close>; a character of the model is a code point below 256.
\<close>

subsection \<open>Strings: \<open>str.strip\<close> and \<open>str.split\<close>\<close>

text \<open>The code points below 256 for which Python's \<open>str.isspace\<close> holds.\<close>

definition py_isspace :: "char \<Rightarrow> bool" where
  "py_isspace c \<longleftrightarrow>
     c \<in> set [CHR 0x09, CHR 0x0A, CHR 0x0B, CHR 0x0C, CHR 0x0D,
              CHR 0x1C, CHR 0x1D, CHR 0x1E, CHR 0x1F, CHR 0x20, CHR 0x85, CHR 0xA0]"

definition strip :: "string \<Rightarrow> string" where
  "strip s = rev (dropWhile py_isspace (rev (dropWhile py_isspace s)))"

text \<open>
  \<open>s.split()\<close> with no separator: the maximal runs of characters that are not
  whitespace, in order; no empty string is ever among them.
\<close>

function split_ws :: "string \<Rightarrow> string list" where
  "split_ws s =
     (case dropWhile py_isspace s of
        [] \<Rightarrow> []
      | c # cs \<Rightarrow>
          (c # takeWhile (\<lambda>x. \<not> py_isspace x) cs)
            # split_ws (dropWhile (\<lambda>x. \<not> py_isspace x) cs))"
  by pat_completeness auto
termination
proof (relation "measure length")
  show "wf (measure length)" by simp
next
  fix s :: string and c cs
  assume a: "dropWhile py_isspace s = c # cs"
  have "length (dropWhile (\<lambda>x. \<not> py_isspace x) cs) \<le> length cs"
    by (rule length_dropWhile_le)
  moreover have "length (c # cs) \<le> length s"
    using length_dropWhile_le [of py_isspace s] a by simp
  ultimately show "(dropWhile (\<lambda>x. \<not> py_isspace x) cs, s) \<in> measure length"
    by simp
qed

declare split_ws.simps [simp del]

subsection \<open>Paths\<close>

text \<open>
  A path is the list of the segments joined with \<open>/\<close>, the working directory's first.
  The file system answers for each such list on its own, so nothing is assumed about how
  a segment that itself holds a separator is resolved.
\<close>

type_synonym path = "string list"

definition pjoin :: "path \<Rightarrow> string \<Rightarrow> path" where
  "pjoin p s = p @ [s]"

definition str_path :: "path \<Rightarrow> string" where
  "str_path p = concat (map (\<lambda>s. CHR ''/'' # s) p)"

subsection \<open>Exceptions, subprocesses, the clock\<close>

text \<open>
  The exception classes the script names in its handlers, and \<open>OtherException\<close> for
  every other subclass of \<open>Exception\<close> (a plain \<open>OSError\<close>, a decoding error, ...).
  An exception carries its message.
\<close>

datatype exn_class =
  CalledProcessError | FileNotFoundError | PermissionError | TimeoutExpired | OtherException

type_synonym exn = "exn_class \<times> string"

record completed =
  returncode :: int
  stdout :: string

record call =
  cmd :: "string list"
  call_cwd :: "path option"
  timeout :: "nat option"

record datetime =
  year :: nat
  month :: nat
  day :: nat
  hour :: nat
  minute :: nat
  second :: nat

text \<open>
  What is written: a JSON object (the metadata), or a line of text.
\<close>

datatype json = JString string | JNull

type_synonym metadata = "(string \<times> json) list"

datatype content = Json metadata | Truncated

datatype printed = Text string | JsonText metadata

text \<open>
  \<open>spawn\<close> is what \<open>subprocess.run(cmd, cwd=.., capture_output=True, text=True,
  timeout=..)\<close> gives before \<open>check\<close> is looked at: the completed process, or the
  exception raised.  During one run the script asks no question twice (each command, each
  path is its own), so a world that answers by functions covers every environment, also
  one that changes while the script runs.
\<close>

record world =
  getcwd :: "exn + path"
  path_exists :: "path \<Rightarrow> exn + bool"
  spawn :: "string list \<Rightarrow> path option \<Rightarrow> nat option \<Rightarrow> exn + completed"
  now_utc :: datetime
  mkdir_parents :: "path \<Rightarrow> exn option"
  open_w :: "path \<Rightarrow> exn option"
  json_dump :: "path \<Rightarrow> exn option"
  stdout_write :: "printed \<Rightarrow> exn option"
  stderr_write :: "string \<Rightarrow> exn option"

text \<open>
  \<open>Path.exists()\<close> answers \<open>False\<close> for a missing entry and raises for another
  failure of the look-up (a directory that may not be searched gives
  \<open>PermissionError\<close>).  A \<open>print\<close> writes the whole text or raises.
  \<open>cwd\<close> is the working directory that \<open>Path.cwd()\<close> returns, when it returns one.
\<close>

definition cwd :: "world \<Rightarrow> path" where
  "cwd w = (case getcwd w of Inl e \<Rightarrow> [] | Inr p \<Rightarrow> p)"

record pstate =
  calls :: "call list"
  out_log :: "printed list"
  err_log :: "string list"
  files :: "path \<rightharpoonup> content"

definition print_out :: "printed \<Rightarrow> pstate \<Rightarrow> pstate" where
  "print_out x st = st\<lparr>out_log := out_log st @ [x]\<rparr>"

definition print_err :: "string \<Rightarrow> pstate \<Rightarrow> pstate" where
  "print_err x st = st\<lparr>err_log := err_log st @ [x]\<rparr>"

text \<open>\<open>print(x)\<close> and \<open>print(x, file=sys.stderr)\<close>: the text is written, or the call raises.\<close>

definition py_print :: "world \<Rightarrow> printed \<Rightarrow> pstate \<Rightarrow> (exn + unit) \<times> pstate" where
  "py_print w x st =
     (case stdout_write w x of Some e \<Rightarrow> (Inl e, st) | None \<Rightarrow> (Inr (), print_out x st))"

definition py_print_err :: "world \<Rightarrow> string \<Rightarrow> pstate \<Rightarrow> (exn + unit) \<times> pstate" where
  "py_print_err w x st =
     (case stderr_write w x of Some e \<Rightarrow> (Inl e, st) | None \<Rightarrow> (Inr (), print_err x st))"

text \<open>
  \<open>subprocess.run\<close>: the call is made (and logged); with \<open>check=True\<close> a non-zero
  exit status raises \<open>CalledProcessError\<close>.
\<close>

definition subprocess_run ::
  "world \<Rightarrow> string list \<Rightarrow> path option \<Rightarrow> nat option \<Rightarrow> bool \<Rightarrow> pstate
     \<Rightarrow> (exn + completed) \<times> pstate" where
  "subprocess_run w command dir tmo check st =
     (let st' = st\<lparr>calls := calls st @ [\<lparr>cmd = command, call_cwd = dir, timeout = tmo\<rparr>]\<rparr>
      in case spawn w command dir tmo of
           Inl e \<Rightarrow> (Inl e, st')
         | Inr result \<Rightarrow>
             if check \<and> returncode result \<noteq> 0
             then (Inl (CalledProcessError, ''Command returned non-zero exit status''), st')
             else (Inr result, st'))"

subsection \<open>\<open>run_git_command\<close>\<close>

definition run_git_command ::
  "world \<Rightarrow> path \<Rightarrow> string list \<Rightarrow> pstate \<Rightarrow> (exn + string) \<times> pstate" where
  "run_git_command w dir command st =
     (case subprocess_run w command (Some dir) None True st of
        (Inr result, st') \<Rightarrow> (Inr (strip (stdout result)), st')
      | (Inl e, st') \<Rightarrow>
          if fst e \<in> {CalledProcessError, FileNotFoundError}
          then (Inr ''unknown'', st')
          else (Inl e, st'))"

subsection \<open>\<open>get_duckdb_info\<close>\<close>

record duckdb_info =
  git_describe :: string
  version :: string
  commit :: string

text \<open>
  The loop over \<open>binary_paths\<close>; \<open>actual_version\<close> is the variable of that name.
  Returning \<open>Inr p\<close> in the middle is the \<open>break\<close>.  The existence test stands
  before the \<open>try\<close>: what it raises leaves the loop.
\<close>

fun probe_binaries ::
  "world \<Rightarrow> path list \<Rightarrow> string \<Rightarrow> pstate \<Rightarrow> (exn + string) \<times> pstate" where
  "probe_binaries w [] actual_version st = (Inr actual_version, st)"
| "probe_binaries w (binary_path # rest) actual_version st =
     (case path_exists w binary_path of
        Inl e \<Rightarrow> (Inl e, st)
      | Inr False \<Rightarrow> probe_binaries w rest actual_version st
      | Inr True \<Rightarrow>
          (case subprocess_run w [str_path binary_path, ''--version''] None (Some 5) False st of
             (Inr result, st') \<Rightarrow>
               if returncode result = 0 \<and> stdout result \<noteq> [] then
                 (case split_ws (strip (stdout result)) of
                    [] \<Rightarrow> probe_binaries w rest actual_version st'
                  | p # _ \<Rightarrow> (Inr p, st'))
               else probe_binaries w rest actual_version st'
           | (Inl e, st') \<Rightarrow>
               if fst e \<in> {TimeoutExpired, FileNotFoundError, PermissionError}
               then probe_binaries w rest actual_version st'
               else (Inl e, st')))"

definition binary_paths :: "path \<Rightarrow> string \<Rightarrow> path list" where
  "binary_paths repo_root build_type =
     [pjoin (pjoin (pjoin repo_root ''build'') build_type) ''duckdb'',
      pjoin (pjoin (pjoin repo_root ''build'') build_type) ''duckdb.exe'']"

text \<open>
  The two early returns of \<open>get_duckdb_info\<close>: the warning is printed on standard
  error, then the three \<open>unknown\<close> are returned.
\<close>

definition unknown_info :: duckdb_info where
  "unknown_info = \<lparr>git_describe = ''unknown'', version = ''unknown'', commit = ''unknown''\<rparr>"

definition warn_unknown :: "world \<Rightarrow> string \<Rightarrow> pstate \<Rightarrow> (exn + duckdb_info) \<times> pstate" where
  "warn_unknown w msg st =
     (case py_print_err w msg st of
        (Inl e, st') \<Rightarrow> (Inl e, st')
      | (Inr u, st') \<Rightarrow> (Inr unknown_info, st'))"

definition get_duckdb_info ::
  "world \<Rightarrow> path \<Rightarrow> string \<Rightarrow> pstate \<Rightarrow> (exn + duckdb_info) \<times> pstate" where
  "get_duckdb_info w repo_root build_type st =
     (let duckdb_dir = pjoin repo_root ''duckdb'' in
      case path_exists w duckdb_dir of
        Inl e \<Rightarrow> (Inl e, st)
      | Inr False \<Rightarrow>
          warn_unknown w (''Warning: DuckDB submodule not found at '' @ str_path duckdb_dir) st
      | Inr True \<Rightarrow>
          (let git_dir = pjoin duckdb_dir ''.git'' in
           case path_exists w git_dir of
             Inl e \<Rightarrow> (Inl e, st)
           | Inr False \<Rightarrow>
               warn_unknown w ''Warning: DuckDB directory is not a git repository'' st
           | Inr True \<Rightarrow>
               (case run_git_command w duckdb_dir
                       [''git'', ''describe'', ''--tags'', ''--always'', ''--long''] st of
                  (Inl e, st1) \<Rightarrow> (Inl e, st1)
                | (Inr describe, st1) \<Rightarrow>
                    (case run_git_command w duckdb_dir [''git'', ''rev-parse'', ''HEAD''] st1 of
                       (Inl e, st2) \<Rightarrow> (Inl e, st2)
                     | (Inr commit_hash, st2) \<Rightarrow>
                         (case probe_binaries w (binary_paths repo_root build_type)
                                 ''unknown'' st2 of
                            (Inl e, st3) \<Rightarrow> (Inl e, st3)
                          | (Inr actual_version, st3) \<Rightarrow>
                              (Inr \<lparr>git_describe = describe, version = actual_version,
                                    commit = commit_hash\<rparr>, st3))))))"

subsection \<open>\<open>get_extension_info\<close>\<close>

record extension_info =
  ext_version :: string
  ext_commit :: string

definition get_extension_info ::
  "world \<Rightarrow> path \<Rightarrow> pstate \<Rightarrow> (exn + extension_info) \<times> pstate" where
  "get_extension_info w repo_root st =
     (case run_git_command w repo_root [''git'', ''tag'', ''--points-at'', ''HEAD''] st of
        (Inl e, st1) \<Rightarrow> (Inl e, st1)
      | (Inr tag, st1) \<Rightarrow>
          (case run_git_command w repo_root [''git'', ''rev-parse'', ''HEAD''] st1 of
             (Inl e, st2) \<Rightarrow> (Inl e, st2)
           | (Inr commit_hash, st2) \<Rightarrow>
               (case run_git_command w repo_root
                       [''git'', ''rev-parse'', ''--short'', ''HEAD''] st2 of
                  (Inl e, st3) \<Rightarrow> (Inl e, st3)
                | (Inr short_commit, st3) \<Rightarrow>
                    (Inr \<lparr>ext_version =
                            (if tag \<noteq> [] \<and> tag \<noteq> ''unknown'' then tag else short_commit),
                          ext_commit = commit_hash\<rparr>, st3))))"

subsection \<open>The time stamp\<close>

definition digit_char :: "nat \<Rightarrow> char" where
  "digit_char d = ''0123456789'' ! (d mod 10)"

definition pad2 :: "nat \<Rightarrow> string" where
  "pad2 n = [digit_char (n div 10), digit_char n]"

definition pad4 :: "nat \<Rightarrow> string" where
  "pad4 n = [digit_char (n div 1000), digit_char (n div 100), digit_char (n div 10),
             digit_char n]"

text \<open>
  \<open>strftime\<close>, for the directives the script uses: \<open>%Y\<close> is the year with century,
  four digits; \<open>%m\<close>, \<open>%d\<close>, \<open>%H\<close>, \<open>%M\<close>, \<open>%S\<close> are two digits, zero-padded.
  Every other character of the format stands for itself.
\<close>

fun strftime :: "datetime \<Rightarrow> string \<Rightarrow> string" where
  "strftime dt [] = []"
| "strftime dt [c] = [c]"
| "strftime dt (c # d # fmt) =
     (if c = CHR ''%'' then
        (if d = CHR ''Y'' then pad4 (year dt) @ strftime dt fmt
         else if d = CHR ''m'' then pad2 (month dt) @ strftime dt fmt
         else if d = CHR ''d'' then pad2 (day dt) @ strftime dt fmt
         else if d = CHR ''H'' then pad2 (hour dt) @ strftime dt fmt
         else if d = CHR ''M'' then pad2 (minute dt) @ strftime dt fmt
         else if d = CHR ''S'' then pad2 (second dt) @ strftime dt fmt
         else c # d # strftime dt fmt)
      else c # strftime dt (d # fmt))"

subsection \<open>\<open>create_metadata\<close>\<close>

text \<open>
  The namespace \<open>argparse\<close> hands over: the three required options are strings, the
  two optional ones are \<open>None\<close> when not given.
\<close>

record args =
  extension_name :: string
  build_type :: string
  platform :: string
  ci_tools_version :: "string option"
  workflow_run_id :: "string option"

text \<open>\<open>x or ""\<close>: a value that is \<open>None\<close> or empty gives the empty string.\<close>

definition or_empty :: "string option \<Rightarrow> string" where
  "or_empty x = (case x of None \<Rightarrow> [] | Some s \<Rightarrow> if s = [] then [] else s)"

definition build_metadata :: "world \<Rightarrow> args \<Rightarrow> duckdb_info \<Rightarrow> extension_info \<Rightarrow> metadata" where
  "build_metadata w a di ei =
     [(''extension_name'', JString (extension_name a)),
      (''extension_version'', JString (ext_version ei)),
      (''extension_commit'', JString (ext_commit ei)),
      (''duckdb_version'', JString (version di)),
      (''duckdb_git_describe'', JString (git_describe di)),
      (''duckdb_commit'', JString (commit di)),
      (''platform'', JString (platform a)),
      (''build_type'', JString (build_type a)),
      (''build_date'', JString (strftime (now_utc w) ''%Y-%m-%dT%H:%M:%SZ'')),
      (''workflow_run_id'', JString (or_empty (workflow_run_id a))),
      (''ci_tools_version'', JString (or_empty (ci_tools_version a)))]"

definition output_file :: "path \<Rightarrow> string \<Rightarrow> path" where
  "output_file repo_root bt = pjoin (pjoin (pjoin repo_root ''build'') bt) ''metadata.json''"

text \<open>
  Opening the file for writing empties it; a failure while the JSON text is written
  leaves it truncated.  The two \<open>print\<close> calls come after the file is written.
\<close>

definition create_metadata :: "world \<Rightarrow> args \<Rightarrow> pstate \<Rightarrow> (exn + int) \<times> pstate" where
  "create_metadata w a st =
     (case getcwd w of
        Inl e \<Rightarrow> (Inl e, st)
      | Inr repo_root \<Rightarrow>
     (case get_duckdb_info w repo_root (build_type a) st of
        (Inl e, st1) \<Rightarrow> (Inl e, st1)
      | (Inr di, st1) \<Rightarrow>
          (case get_extension_info w repo_root st1 of
             (Inl e, st2) \<Rightarrow> (Inl e, st2)
           | (Inr ei, st2) \<Rightarrow>
               (let md = build_metadata w a di ei;
                    output_dir = pjoin (pjoin repo_root ''build'') (build_type a);
                    out_file = pjoin output_dir ''metadata.json''
                in case mkdir_parents w output_dir of
                     Some e \<Rightarrow> (Inl e, st2)
                   | None \<Rightarrow>
                       (case open_w w out_file of
                          Some e \<Rightarrow> (Inl e, st2)
                        | None \<Rightarrow>
                            (case json_dump w out_file of
                               Some e \<Rightarrow>
                                 (Inl e, st2\<lparr>files := (files st2)(out_file \<mapsto> Truncated)\<rparr>)
                             | None \<Rightarrow>
                                 (case py_print w
                                         (Text (''Created metadata file: '' @ str_path out_file))
                                         (st2\<lparr>files := (files st2)(out_file \<mapsto> Json md)\<rparr>) of
                                    (Inl e, st3) \<Rightarrow> (Inl e, st3)
                                  | (Inr u, st3) \<Rightarrow>
                                      (case py_print w (JsonText md) st3 of
                                         (Inl e, st4) \<Rightarrow> (Inl e, st4)
                                       | (Inr u', st4) \<Rightarrow> (Inr 0, st4)))))))))"

subsection \<open>\<open>main\<close>\<close>

text \<open>
  The five options \<open>main\<close> declares, with their \<open>required\<close> flags.  The command
  line of the model is the list of the options given, each with its value, in order;
  \<open>argparse\<close> keeps the last value of an option given twice.  The parser leaves by
  \<open>SystemExit(2)\<close>, after a usage message on standard error, when a required option
  is missing; that happens before the \<open>try\<close> of \<open>main\<close>, and \<open>SystemExit\<close> is no
  \<open>Exception\<close>.
\<close>

datatype opt = ExtensionName | BuildType | Platform | CiToolsVersion | WorkflowRunId

definition parser_arguments :: "(opt \<times> string \<times> bool) list" where
  "parser_arguments =
     [(ExtensionName, ''--extension-name'', True),
      (BuildType, ''--build-type'', True),
      (Platform, ''--platform'', True),
      (CiToolsVersion, ''--ci-tools-version'', False),
      (WorkflowRunId, ''--workflow-run-id'', False)]"

definition given :: "(opt \<times> string) list \<Rightarrow> opt \<Rightarrow> string option" where
  "given argv k = map_of (rev argv) k"

definition missing_required :: "(opt \<times> string) list \<Rightarrow> string list" where
  "missing_required argv =
     map (\<lambda>(k, name, req). name)
       (filter (\<lambda>(k, name, req). req \<and> given argv k = None) parser_arguments)"

definition parse_args :: "(opt \<times> string) list \<Rightarrow> pstate \<Rightarrow> (int + args) \<times> pstate" where
  "parse_args argv st =
     (case (given argv ExtensionName, given argv BuildType, given argv Platform) of
        (Some name, Some bt, Some pf) \<Rightarrow>
          (Inr \<lparr>extension_name = name, build_type = bt, platform = pf,
                ci_tools_version = given argv CiToolsVersion,
                workflow_run_id = given argv WorkflowRunId\<rparr>, st)
      | _ \<Rightarrow>
          (Inl 2,
           print_err (''error: the following arguments are required: ''
                        @ concat (map (\<lambda>n. n @ '' '') (missing_required argv))) st))"

text \<open>
  The exit status of the process: \<open>sys.exit(main())\<close>.  When the \<open>print\<close> of the
  handler itself raises, the exception leaves \<open>main\<close> uncaught and the interpreter
  exits with status 1.
\<close>

definition main :: "world \<Rightarrow> (opt \<times> string) list \<Rightarrow> pstate \<Rightarrow> int \<times> pstate" where
  "main w argv st =
     (case parse_args argv st of
        (Inl code, st0) \<Rightarrow> (code, st0)
      | (Inr a, st0) \<Rightarrow>
          (case create_metadata w a st0 of
             (Inr rc, st1) \<Rightarrow> (rc, st1)
           | (Inl e, st1) \<Rightarrow>
               (case py_print_err w (''Error creating metadata: '' @ snd e) st1 of
                  (Inl e', st2) \<Rightarrow> (1, st2)
                | (Inr u, st2) \<Rightarrow> (1, st2))))"

subsection \<open>Sample environments\<close>

text \<open>
  A git that answers the three queries on the extension's repository, and nothing else
  that can be run.
\<close>

definition git_only :: "string list \<Rightarrow> path option \<Rightarrow> nat option \<Rightarrow> exn + completed" where
  "git_only command dir tmo =
     (if command = [''git'', ''tag'', ''--points-at'', ''HEAD'']
      then Inr \<lparr>returncode = 0, stdout = []\<rparr>
      else if command = [''git'', ''rev-parse'', ''HEAD'']
      then Inr \<lparr>returncode = 0, stdout = ''4f2a9c01d3e5b7a86c0f1e2d3c4b5a6978877665\<newline>''\<rparr>
      else if command = [''git'', ''rev-parse'', ''--short'', ''HEAD'']
      then Inr \<lparr>returncode = 0, stdout = ''4f2a9c0\<newline>''\<rparr>
      else if command = [''git'', ''describe'', ''--tags'', ''--always'', ''--long'']
      then Inr \<lparr>returncode = 128, stdout = []\<rparr>
      else Inl (FileNotFoundError, ''No such file or directory''))"

definition noon :: datetime where
  "noon = \<lparr>year = 2024, month = 3, day = 5, hour = 12, minute = 0, second = 9\<rparr>"

text \<open>No \<open>duckdb\<close> directory, nothing built, a writable disk.\<close>

definition w_bare :: world where
  "w_bare =
     \<lparr>getcwd = Inr [''work''], path_exists = (\<lambda>p. Inr False), spawn = git_only,
      now_utc = noon, mkdir_parents = (\<lambda>p. None), open_w = (\<lambda>p. None),
      json_dump = (\<lambda>p. None), stdout_write = (\<lambda>x. None), stderr_write = (\<lambda>x. None)\<rparr>"

definition st_init :: pstate where
  "st_init = \<lparr>calls = [], out_log = [], err_log = [], files = Map.empty\<rparr>"

definition args_min :: args where
  "args_min = \<lparr>extension_name = ''sqlglot'', build_type = ''release'',
                platform = ''linux_amd64'', ci_tools_version = None, workflow_run_id = None\<rparr>"

definition argv_min :: "(opt \<times> string) list" where
  "argv_min = [(ExtensionName, ''sqlglot''), (BuildType, ''release''),
               (Platform, ''linux_amd64'')]"

text \<open>As \<open>w_bare\<close>, but the output file cannot be opened for writing.\<close>

definition w_readonly :: world where
  "w_readonly = w_bare\<lparr>open_w := (\<lambda>p. Some (PermissionError, ''Permission denied''))\<rparr>"

subsection \<open>The record that is written\<close>

text \<open>The eleven keys of the record, in the order of the dictionary.\<close>

definition metadata_keys :: "string list" where
  "metadata_keys =
     [''extension_name'', ''extension_version'', ''extension_commit'', ''duckdb_version'',
      ''duckdb_git_describe'', ''duckdb_commit'', ''platform'', ''build_type'',
      ''build_date'', ''workflow_run_id'', ''ci_tools_version'']"

definition is_string :: "json \<Rightarrow> bool" where
  "is_string v = (case v of JString s \<Rightarrow> True | JNull \<Rightarrow> False)"

text \<open>A required option of the parser that the command line does not give.\<close>

definition omits_required :: "(opt \<times> string) list \<Rightarrow> bool" where
  "omits_required argv \<longleftrightarrow>
     list_ex (\<lambda>(k, name, req). req \<and> given argv k = None) parser_arguments"

text \<open>
  A checkout with the \<open>duckdb\<close> submodule.  \<open>x1\<close> and \<open>x2\<close> say whether the two
  binaries are there, \<open>b1\<close> and \<open>b2\<close> what running them gives.
\<close>

definition spawn_with ::
  "(exn + completed) \<Rightarrow> (exn + completed) \<Rightarrow> string list \<Rightarrow> path option \<Rightarrow> nat option
     \<Rightarrow> exn + completed" where
  "spawn_with b1 b2 command dir tmo =
     (if command = [''/work/build/release/duckdb'', ''--version''] then b1
      else if command = [''/work/build/release/duckdb.exe'', ''--version''] then b2
      else if command = [''git'', ''describe'', ''--tags'', ''--always'', ''--long'']
      then Inr \<lparr>returncode = 0, stdout = ''v1.4.0-0-gb8a06e4a22\<newline>''\<rparr>
      else git_only command dir tmo)"

definition w_built :: "bool \<Rightarrow> bool \<Rightarrow> (exn + completed) \<Rightarrow> (exn + completed) \<Rightarrow> world" where
  "w_built x1 x2 b1 b2 =
     w_bare\<lparr>path_exists :=
              (\<lambda>p. Inr (p = [''work'', ''duckdb''] \<or> p = [''work'', ''duckdb'', ''.git'']
                         \<or> (x1 \<and> p = [''work'', ''build'', ''release'', ''duckdb''])
                         \<or> (x2 \<and> p = [''work'', ''build'', ''release'', ''duckdb.exe'']))),
            spawn := spawn_with b1 b2\<rparr>"

definition printed_version :: "exn + completed" where
  "printed_version =
     Inr \<lparr>returncode = 0,
          stdout = ''v1.5.0-dev1754 (Development Version) c8267cbc21\<newline>''\<rparr>"

text \<open>
  Two builds: in \<open>w_blank\<close> the only binary prints a single newline; in \<open>w_release\<close>
  both binaries print a version.
\<close>

definition w_blank :: world where
  "w_blank = w_built True False (Inr \<lparr>returncode = 0, stdout = ''\<newline>''\<rparr>) printed_version"

definition w_release :: world where
  "w_release = w_built True True printed_version (Inr \<lparr>returncode = 0, stdout = ''v9''\<rparr>)"

text \<open>
  A build directory that may not be searched: the existence test of the first binary
  raises \<open>PermissionError\<close>.
\<close>

definition w_unsearchable :: world where
  "w_unsearchable =
     w_bare\<lparr>path_exists :=
              (\<lambda>p. if p = [''work'', ''build'', ''release'', ''duckdb'']
                    \<or> p = [''work'', ''build'', ''release'', ''duckdb.exe'']
                    then Inl (PermissionError, ''Permission denied'')
                    else Inr (p = [''work'', ''duckdb''] \<or> p = [''work'', ''duckdb'', ''.git''])),
            spawn := spawn_with printed_version printed_version\<rparr>"

text \<open>Outside any repository: every git command exits with status 128.\<close>

definition w_outside :: world where
  "w_outside = w_bare\<lparr>spawn := (\<lambda>command dir tmo. Inr \<lparr>returncode = 128, stdout = []\<rparr>)\<rparr>"

subsection \<open>What one probe of a binary gives\<close>

definition probe_call :: "path \<Rightarrow> call" where
  "probe_call p = \<lparr>cmd = [str_path p, ''--version''], call_cwd = None, timeout = Some 5\<rparr>"

definition probed :: "path \<Rightarrow> pstate \<Rightarrow> pstate" where
  "probed p st = st\<lparr>calls := calls st @ [probe_call p]\<rparr>"

definition probe_outcome :: "world \<Rightarrow> path \<Rightarrow> exn + completed" where
  "probe_outcome w p = spawn w [str_path p, ''--version''] None (Some 5)"

text \<open>The first whitespace-separated token of an output, when there is one.\<close>

definition first_token :: "string \<Rightarrow> string option" where
  "first_token out = (case split_ws out of [] \<Rightarrow> None | t # _ \<Rightarrow> Some t)"

text \<open>
  A probe that fails: the existence test finds the binary missing, or the binary is there
  and running it times out, finds no file, is not permitted, or ends with a non-zero exit
  status.
\<close>

definition probe_fails :: "world \<Rightarrow> path \<Rightarrow> bool" where
  "probe_fails w p \<longleftrightarrow>
     (case path_exists w p of
        Inl e \<Rightarrow> False
      | Inr False \<Rightarrow> True
      | Inr True \<Rightarrow>
          (case probe_outcome w p of
             Inl e \<Rightarrow> fst e \<in> {TimeoutExpired, FileNotFoundError, PermissionError}
           | Inr r \<Rightarrow> returncode r \<noteq> 0))"

text \<open>
  A probe that succeeds with the token \<open>t\<close>: the binary is there, it exits with status
  zero, and \<open>t\<close> is the first token of its output.
\<close>

definition probe_hit :: "world \<Rightarrow> path \<Rightarrow> string option" where
  "probe_hit w p =
     (if path_exists w p = Inr True then
        (case probe_outcome w p of
           Inl e \<Rightarrow> None
         | Inr r \<Rightarrow> if returncode r = 0 then first_token (stdout r) else None)
      else None)"

text \<open>
  An existing binary that exits with a non-zero status, prints nothing (no token), or
  raises an error the loop catches.
\<close>

definition probe_caught :: "world \<Rightarrow> path \<Rightarrow> bool" where
  "probe_caught w p \<longleftrightarrow>
     path_exists w p = Inr True \<and>
     (case probe_outcome w p of
        Inl e \<Rightarrow> fst e \<in> {TimeoutExpired, FileNotFoundError, PermissionError}
      | Inr r \<Rightarrow> returncode r \<noteq> 0 \<or> first_token (stdout r) = None)"

subsection \<open>What the git queries answer\<close>

definition tag_cmd :: "string list" where
  "tag_cmd = [''git'', ''tag'', ''--points-at'', ''HEAD'']"

definition head_cmd :: "string list" where
  "head_cmd = [''git'', ''rev-parse'', ''HEAD'']"

definition short_cmd :: "string list" where
  "short_cmd = [''git'', ''rev-parse'', ''--short'', ''HEAD'']"

definition git_outcome :: "world \<Rightarrow> path \<Rightarrow> string list \<Rightarrow> exn + completed" where
  "git_outcome w dir command = spawn w command (Some dir) None"

text \<open>No tag points at the current commit: the tag query succeeds and lists nothing.\<close>

definition no_tag_at_head :: "world \<Rightarrow> path \<Rightarrow> bool" where
  "no_tag_at_head w root \<longleftrightarrow>
     (case git_outcome w root tag_cmd of
        Inl e \<Rightarrow> False
      | Inr r \<Rightarrow> returncode r = 0 \<and> strip (stdout r) = [])"

text \<open>A query that fails: a non-zero exit status, or no executable.\<close>

definition query_fails :: "world \<Rightarrow> path \<Rightarrow> string list \<Rightarrow> bool" where
  "query_fails w dir command \<longleftrightarrow>
     (case git_outcome w dir command of
        Inl e \<Rightarrow> fst e \<in> {CalledProcessError, FileNotFoundError}
      | Inr r \<Rightarrow> returncode r \<noteq> 0)"

text \<open>A query that raises an exception the helper does not catch.\<close>

definition query_raises :: "world \<Rightarrow> path \<Rightarrow> string list \<Rightarrow> bool" where
  "query_raises w dir command \<longleftrightarrow>
     (case git_outcome w dir command of
        Inl e \<Rightarrow> fst e \<notin> {CalledProcessError, FileNotFoundError}
      | Inr r \<Rightarrow> False)"

text \<open>
  What git does inside a repository and outside: when the query for the abbreviated hash
  succeeds, it prints the hash, which is not blank, and not the word \<open>unknown\<close>.
\<close>

definition hash_not_blank :: "world \<Rightarrow> path \<Rightarrow> bool" where
  "hash_not_blank w root \<longleftrightarrow>
     (case git_outcome w root short_cmd of
        Inl e \<Rightarrow> True
      | Inr r \<Rightarrow> returncode r \<noteq> 0 \<or> strip (stdout r) \<noteq> [])"

definition hash_not_unknown :: "world \<Rightarrow> path \<Rightarrow> bool" where
  "hash_not_unknown w root \<longleftrightarrow>
     (case git_outcome w root short_cmd of
        Inl e \<Rightarrow> True
      | Inr r \<Rightarrow> returncode r \<noteq> 0 \<or> strip (stdout r) \<noteq> ''unknown'')"

subsection \<open>A checkout without the dependency\<close>

definition duckdb_missing :: "world \<Rightarrow> bool" where
  "duckdb_missing w \<longleftrightarrow>
     path_exists w (pjoin (cwd w) ''duckdb'') = Inr False \<or>
     (path_exists w (pjoin (cwd w) ''duckdb'') = Inr True \<and>
      path_exists w (pjoin (pjoin (cwd w) ''duckdb'') ''.git'') = Inr False)"

definition duckdb_warning :: "world \<Rightarrow> string" where
  "duckdb_warning w =
     (if path_exists w (pjoin (cwd w) ''duckdb'') = Inr False
      then ''Warning: DuckDB submodule not found at '' @ str_path (pjoin (cwd w) ''duckdb'')
      else ''Warning: DuckDB directory is not a git repository'')"

text \<open>
  Nothing but the dependency is amiss: there is a working directory, the warning can be
  printed, the three queries on the extension's repository raise nothing, the directory
  can be created, the file opened and written.
\<close>

definition rest_succeeds :: "world \<Rightarrow> string \<Rightarrow> bool" where
  "rest_succeeds w bt \<longleftrightarrow>
     getcwd w = Inr (cwd w) \<and>
     stderr_write w (duckdb_warning w) = None \<and>
     \<not> query_raises w (cwd w) tag_cmd \<and> \<not> query_raises w (cwd w) head_cmd \<and>
     \<not> query_raises w (cwd w) short_cmd \<and>
     mkdir_parents w (pjoin (pjoin (cwd w) ''build'') bt) = None \<and>
     open_w w (output_file (cwd w) bt) = None \<and>
     json_dump w (output_file (cwd w) bt) = None"

definition field :: "metadata \<Rightarrow> string \<Rightarrow> json option" where
  "field md k = map_of md k"

subsection \<open>Reading a time stamp\<close>

text \<open>
  What the specification says of \<open>build_date\<close>: it matches the pattern
  \<open>YYYY-MM-DDTHH:MM:SSZ\<close> (a letter \<open>Y\<close>, \<open>M\<close>, \<open>D\<close>, \<open>H\<close> or \<open>S\<close> of the pattern
  stands for a decimal digit, every other character for itself) and it can be read back
  as an instant of the calendar.
\<close>

definition is_digit :: "char \<Rightarrow> bool" where
  "is_digit c \<longleftrightarrow> c \<in> set ''0123456789''"

definition digit_val :: "char \<Rightarrow> nat" where
  "digit_val c = length (takeWhile (\<lambda>d. d \<noteq> c) ''0123456789'')"

definition number :: "string \<Rightarrow> nat" where
  "number s = foldl (\<lambda>n c. 10 * n + digit_val c) 0 s"

fun matches_pattern :: "string \<Rightarrow> string \<Rightarrow> bool" where
  "matches_pattern [] [] \<longleftrightarrow> True"
| "matches_pattern (p # ps) (c # cs) \<longleftrightarrow>
     (if p \<in> set ''YMDHS'' then is_digit c else c = p) \<and> matches_pattern ps cs"
| "matches_pattern _ _ \<longleftrightarrow> False"

definition leap_year :: "nat \<Rightarrow> bool" where
  "leap_year y \<longleftrightarrow> y mod 4 = 0 \<and> (y mod 100 \<noteq> 0 \<or> y mod 400 = 0)"

definition days_in_month :: "nat \<Rightarrow> nat \<Rightarrow> nat" where
  "days_in_month y m =
     (if m \<in> {4, 6, 9, 11} then 30 else if m = 2 then (if leap_year y then 29 else 28) else 31)"

text \<open>
  The values a \<open>datetime\<close> can hold, from the year 1000 on: before it the width of
  \<open>%Y\<close> is the platform's choice, and no clock reads such a year.
\<close>

definition valid_datetime :: "datetime \<Rightarrow> bool" where
  "valid_datetime dt \<longleftrightarrow>
     1000 \<le> year dt \<and> year dt \<le> 9999 \<and> 1 \<le> month dt \<and> month dt \<le> 12 \<and>
     1 \<le> day dt \<and> day dt \<le> days_in_month (year dt) (month dt) \<and>
     hour dt < 24 \<and> minute dt < 60 \<and> second dt < 60"

definition slice :: "nat \<Rightarrow> nat \<Rightarrow> string \<Rightarrow> string" where
  "slice i j s = take (j - i) (drop i s)"

definition parse_timestamp :: "string \<Rightarrow> datetime option" where
  "parse_timestamp s =
     (if matches_pattern ''YYYY-MM-DDTHH:MM:SSZ'' s then
        (let dt = \<lparr>year = number (slice 0 4 s), month = number (slice 5 7 s),
                   day = number (slice 8 10 s), hour = number (slice 11 13 s),
                   minute = number (slice 14 16 s), second = number (slice 17 19 s)\<rparr>
         in if valid_datetime dt then Some dt else None)
      else None)"

definition build_date_of :: "metadata \<Rightarrow> string option" where
  "build_date_of md =
     (case map_of md ''build_date'' of Some (JString s) \<Rightarrow> Some s | _ \<Rightarrow> None)"

section \<open>Properties\<close>

subsection \<open>Unfolding the sample environments\<close>

lemmas sample_defs = w_built_def w_bare_def spawn_with_def git_only_def binary_paths_def pjoin_def
  str_path_def probe_outcome_def printed_version_def

lemmas eval_defs = get_duckdb_info_def warn_unknown_def get_extension_info_def
  run_git_command_def subprocess_run_def create_metadata_def py_print_def py_print_err_def
  Let_def print_err_def print_out_def strip_def py_isspace_def st_init_def

subsection \<open>The git helper\<close>

text \<open>
  C4.  For every call of \<open>run_git_command\<close>: when the command exits with a non-zero
  status, or the executable is missing (\<open>FileNotFoundError\<close>), the helper returns the
  value \<open>unknown\<close> and raises nothing; when the command exits with status zero, the
  helper returns its standard output stripped of the whitespace around it.
\<close>

theorem run_git_command_degrades:
  "(spawn w command (Some dir) None = Inr r \<and> returncode r \<noteq> 0
      \<longrightarrow> fst (run_git_command w dir command st) = Inr ''unknown'')
   \<and> (spawn w command (Some dir) None = Inl (FileNotFoundError, msg)
      \<longrightarrow> fst (run_git_command w dir command st) = Inr ''unknown'')
   \<and> (spawn w command (Some dir) None = Inr r \<and> returncode r = 0
      \<longrightarrow> fst (run_git_command w dir command st) = Inr (strip (stdout r)))"
  by (simp add: run_git_command_def subprocess_run_def Let_def)

theorem run_git_command_degrades_witness:
  "fst (run_git_command w_bare [''work'']
          [''git'', ''describe'', ''--tags'', ''--always'', ''--long''] st_init) = Inr ''unknown''
   \<and> fst (run_git_command w_bare [''work''] [''hg'', ''id''] st_init) = Inr ''unknown''
   \<and> fst (run_git_command w_bare [''work''] [''git'', ''rev-parse'', ''--short'', ''HEAD'']
            st_init) = Inr ''4f2a9c0''"
proof -
  have a: "spawn w_bare [''git'', ''describe'', ''--tags'', ''--always'', ''--long'']
             (Some [''work'']) None = Inr \<lparr>returncode = 128, stdout = []\<rparr>"
    by (simp add: w_bare_def git_only_def)
  have b: "spawn w_bare [''hg'', ''id''] (Some [''work'']) None
             = Inl (FileNotFoundError, ''No such file or directory'')"
    by (simp add: w_bare_def git_only_def)
  have c: "spawn w_bare [''git'', ''rev-parse'', ''--short'', ''HEAD''] (Some [''work'']) None
             = Inr \<lparr>returncode = 0, stdout = ''4f2a9c0\<newline>''\<rparr>"
    by (simp add: w_bare_def git_only_def)
  have s: "strip ''4f2a9c0\<newline>'' = ''4f2a9c0''"
    by (simp add: strip_def py_isspace_def)
  from run_git_command_degrades
         [where w = w_bare and dir = "[''work'']" and st = st_init
            and command = "[''git'', ''describe'', ''--tags'', ''--always'', ''--long'']"
            and r = "\<lparr>returncode = 128, stdout = []\<rparr>"]
       run_git_command_degrades
         [where w = w_bare and dir = "[''work'']" and st = st_init
            and command = "[''hg'', ''id'']" and msg = "''No such file or directory''"]
       run_git_command_degrades
         [where w = w_bare and dir = "[''work'']" and st = st_init
            and command = "[''git'', ''rev-parse'', ''--short'', ''HEAD'']"
            and r = "\<lparr>returncode = 0, stdout = ''4f2a9c0\<newline>''\<rparr>"]
  show ?thesis using a b c s by simp
qed

subsection \<open>The time stamp is well formed\<close>

lemma digit_char_cases: "d < 10 \<Longrightarrow> d = 0 \<or> d = 1 \<or> d = 2 \<or> d = 3 \<or> d = 4 \<or> d = 5 \<or> d = 6 \<or> d = 7 \<or> d = 8 \<or> d = (9::nat)"
  by arith

lemma digit_val_digit_char: "digit_val (digit_char d) = d mod 10"
proof -
  have "d mod 10 < 10" by simp
  from digit_char_cases [OF this] show ?thesis
    unfolding digit_char_def digit_val_def by (elim disjE) simp_all
qed

lemma is_digit_digit_char: "is_digit (digit_char d)"
proof -
  have "d mod 10 < 10" by simp
  from digit_char_cases [OF this] show ?thesis
    unfolding digit_char_def is_digit_def by (elim disjE) simp_all
qed

lemma number_pad2: "n < 100 \<Longrightarrow> number (pad2 n) = n"
  unfolding number_def pad2_def by (simp add: digit_val_digit_char)

lemma decimal4:
  fixes n :: nat
  shows "1000 * (n div 1000) + 100 * (n div 100 mod 10) + 10 * (n div 10 mod 10) + n mod 10 = n"
proof -
  define q1 q2 q3 r1 r2 r3 where
    "q1 = n div 10" and "q2 = n div 100" and "q3 = n div 1000" and
    "r1 = n mod 10" and "r2 = n div 10 mod 10" and "r3 = n div 100 mod 10"
  have e2: "q2 = q1 div 10" unfolding q1_def q2_def by (simp add: div_mult2_eq)
  have e3: "q3 = q2 div 10" unfolding q2_def q3_def by (simp add: div_mult2_eq)
  have s1: "n = 10 * q1 + r1" unfolding q1_def r1_def by simp
  have s2: "q1 = 10 * q2 + r2" unfolding e2 unfolding q1_def r2_def by simp
  have s3: "q2 = 10 * q3 + r3" unfolding e3 unfolding q2_def r3_def by simp
  have "1000 * q3 + 100 * r3 + 10 * r2 + r1 = n"
    using s1 s2 s3 by linarith
  then show ?thesis
    unfolding q1_def q2_def q3_def r1_def r2_def r3_def .
qed

lemma number_pad4: "n < 10000 \<Longrightarrow> number (pad4 n) = n"
proof -
  assume n: "n < 10000"
  have "number (pad4 n) = 1000 * (n div 1000 mod 10) + 100 * (n div 100 mod 10) +
     10 * (n div 10 mod 10) + n mod 10"
    unfolding number_def pad4_def by (simp add: digit_val_digit_char)
  moreover have "n div 1000 mod 10 = n div 1000"
    using n by (simp add: less_mult_imp_div_less)
  ultimately show ?thesis using decimal4 [of n] by simp
qed

lemma strftime_format:
  "strftime dt ''%Y-%m-%dT%H:%M:%SZ'' =
     pad4 (year dt) @ ''-'' @ pad2 (month dt) @ ''-'' @ pad2 (day dt) @ ''T'' @
     pad2 (hour dt) @ '':'' @ pad2 (minute dt) @ '':'' @ pad2 (second dt) @ ''Z''"
  by simp

lemma matches_format:
  "matches_pattern ''YYYY-MM-DDTHH:MM:SSZ'' (strftime dt ''%Y-%m-%dT%H:%M:%SZ'')"
  unfolding strftime_format by (simp add: pad2_def pad4_def is_digit_digit_char)

lemma slices_format:
  "slice 0 4 (strftime dt ''%Y-%m-%dT%H:%M:%SZ'') = pad4 (year dt)"
  "slice 5 7 (strftime dt ''%Y-%m-%dT%H:%M:%SZ'') = pad2 (month dt)"
  "slice 8 10 (strftime dt ''%Y-%m-%dT%H:%M:%SZ'') = pad2 (day dt)"
  "slice 11 13 (strftime dt ''%Y-%m-%dT%H:%M:%SZ'') = pad2 (hour dt)"
  "slice 14 16 (strftime dt ''%Y-%m-%dT%H:%M:%SZ'') = pad2 (minute dt)"
  "slice 17 19 (strftime dt ''%Y-%m-%dT%H:%M:%SZ'') = pad2 (second dt)"
  unfolding strftime_format by (simp_all add: pad2_def pad4_def slice_def)

lemma days_in_month_le: "days_in_month y m \<le> 31"
  by (simp add: days_in_month_def)

lemma parse_format:
  assumes "valid_datetime dt"
  shows "parse_timestamp (strftime dt ''%Y-%m-%dT%H:%M:%SZ'') = Some dt"
proof -
  have d: "day dt < 100" using assms days_in_month_le [of "year dt" "month dt"]
    by (simp add: valid_datetime_def)
  have "number (pad4 (year dt)) = year dt" "number (pad2 (month dt)) = month dt"
    "number (pad2 (day dt)) = day dt" "number (pad2 (hour dt)) = hour dt"
    "number (pad2 (minute dt)) = minute dt" "number (pad2 (second dt)) = second dt"
    using assms d by (simp_all add: valid_datetime_def number_pad2 number_pad4)
  then show ?thesis
    using assms unfolding parse_timestamp_def
    by (simp only: matches_format slices_format Let_def if_True datetime.surjective [symmetric] unit.exhaust) (simp add: valid_datetime_def)
qed

text \<open>
  C8.  In every record the script assembles, \<open>build_date\<close> matches the pattern
  \<open>YYYY-MM-DDTHH:MM:SSZ\<close> and reads back as the very instant the UTC clock gave when
  the record was made, a valid instant of the calendar.
\<close>

theorem build_date_well_formed:
  assumes "valid_datetime (now_utc w)"
  shows "case build_date_of (build_metadata w a di ei) of
           Some s \<Rightarrow>
             matches_pattern ''YYYY-MM-DDTHH:MM:SSZ'' s \<and> parse_timestamp s = Some (now_utc w)
         | None \<Rightarrow> False"
proof -
  have "build_date_of (build_metadata w a di ei)
          = Some (strftime (now_utc w) ''%Y-%m-%dT%H:%M:%SZ'')"
    by (simp add: build_date_of_def build_metadata_def)
  then show ?thesis
    using matches_format [of "now_utc w"] parse_format [OF assms] by simp
qed

theorem build_date_well_formed_witness:
  "valid_datetime (now_utc w_bare) \<and>
   build_date_of (build_metadata w_bare args_min unknown_info
                    \<lparr>ext_version = ''4f2a9c0'', ext_commit = ''4f2a9c0''\<rparr>)
     = Some ''2024-03-05T12:00:09Z''"
proof -
  have v: "valid_datetime (now_utc w_bare)"
    by (simp add: w_bare_def noon_def valid_datetime_def days_in_month_def)
  have b: "build_date_of (build_metadata w_bare args_min unknown_info
                    \<lparr>ext_version = ''4f2a9c0'', ext_commit = ''4f2a9c0''\<rparr>)
     = Some ''2024-03-05T12:00:09Z''"
    by (simp add: build_date_of_def build_metadata_def w_bare_def noon_def pad2_def pad4_def
          digit_char_def)
  from build_date_well_formed [OF v, of args_min unknown_info
         "\<lparr>ext_version = ''4f2a9c0'', ext_commit = ''4f2a9c0''\<rparr>"]
  show ?thesis using v b by simp
qed

subsection \<open>The record and the exit status\<close>

lemma create_metadata_written:
  assumes "create_metadata w a st = (Inr rc, st')"
  shows "\<exists>di ei. files st' (output_file (cwd w) (build_type a)) = Some (Json (build_metadata w a di ei)) \<and> rc = 0"
  using assms
  by (auto simp: create_metadata_def cwd_def Let_def output_file_def py_print_def print_out_def
           split: prod.splits sum.splits option.splits intro!: exI)

lemma build_metadata_keys: "map fst (build_metadata w a di ei) = metadata_keys"
  by (simp add: build_metadata_def metadata_keys_def)

lemma build_metadata_strings: "list_all is_string (map snd (build_metadata w a di ei))"
  by (simp add: build_metadata_def is_string_def)

lemma distinct_metadata_keys: "distinct metadata_keys"
  by (simp add: metadata_keys_def)

text \<open>
  C1.  Whenever \<open>create_metadata\<close> returns (the required arguments are fields of
  \<open>args\<close>, so they are supplied), the file \<open>build/<build_type>/metadata.json\<close> holds
  a record with exactly the eleven keys, each once, and every value is a string: none is
  null, none is missing.
\<close>

theorem written_record_keys:
  assumes "create_metadata w a st = (Inr rc, st')"
  shows "case files st' (output_file (cwd w) (build_type a)) of
           Some (Json md) \<Rightarrow>
             map fst md = metadata_keys \<and> distinct (map fst md) \<and> list_all is_string (map snd md)
         | _ \<Rightarrow> False"
proof -
  from create_metadata_written [OF assms] obtain di ei where
    "files st' (output_file (cwd w) (build_type a)) = Some (Json (build_metadata w a di ei))"
    by blast
  then show ?thesis
    by (simp add: build_metadata_keys build_metadata_strings distinct_metadata_keys)
qed

lemma bare_run: "fst (create_metadata w_bare args_min st_init) = Inr 0"
  by (simp add: create_metadata_def get_duckdb_info_def get_extension_info_def
        run_git_command_def subprocess_run_def w_bare_def git_only_def args_min_def
        st_init_def pjoin_def Let_def print_err_def print_out_def warn_unknown_def
        py_print_def py_print_err_def)


theorem written_record_keys_witness:
  "fst (create_metadata w_bare args_min st_init) = Inr 0 \<and>
   (case files (snd (create_metadata w_bare args_min st_init))
           (output_file (cwd w_bare) (build_type args_min)) of
      Some (Json md) \<Rightarrow>
        map fst md = metadata_keys \<and> distinct (map fst md) \<and> list_all is_string (map snd md)
    | _ \<Rightarrow> False)"
proof -
  have "create_metadata w_bare args_min st_init
          = (Inr 0, snd (create_metadata w_bare args_min st_init))"
    using bare_run by (simp add: prod_eq_iff)
  from written_record_keys [OF this] show ?thesis using bare_run by simp
qed

lemma omits_required_iff:
  "omits_required argv \<longleftrightarrow>
     given argv ExtensionName = None \<or> given argv BuildType = None \<or> given argv Platform = None"
  by (simp add: omits_required_def parser_arguments_def)

lemma parse_args_omitted:
  "omits_required argv \<Longrightarrow> fst (parse_args argv st) = Inl 2 \<and> files (snd (parse_args argv st)) = files st
     \<and> calls (snd (parse_args argv st)) = calls st"
  by (auto simp: omits_required_iff parse_args_def print_err_def split: option.splits)

lemma create_metadata_rc: "create_metadata w a st = (Inr rc, st') \<Longrightarrow> rc = 0"
  using create_metadata_written by blast

text \<open>
  C6.  The exit status is 0 when \<open>create_metadata\<close> returns and 1 when it raises an
  exception; when a required option is omitted the parser exits with status 2, no file is
  written and no subprocess is run.
\<close>

theorem exit_codes:
  "(parse_args argv st = (Inr a, st0) \<and> fst (create_metadata w a st0) = Inr rc
       \<longrightarrow> fst (main w argv st) = 0)
   \<and> (parse_args argv st = (Inr a, st0) \<and> fst (create_metadata w a st0) = Inl e
       \<longrightarrow> fst (main w argv st) = 1)
   \<and> (omits_required argv
       \<longrightarrow> fst (main w argv st) = 2 \<and> files (snd (main w argv st)) = files st
           \<and> calls (snd (main w argv st)) = calls st)"
proof (intro conjI impI)
  assume "parse_args argv st = (Inr a, st0) \<and> fst (create_metadata w a st0) = Inr rc"
  then show "fst (main w argv st) = 0"
    using create_metadata_rc [of w a st0 rc "snd (create_metadata w a st0)"]
    by (simp add: main_def prod_eq_iff split: prod.splits sum.splits)
next
  assume "parse_args argv st = (Inr a, st0) \<and> fst (create_metadata w a st0) = Inl e"
  then show "fst (main w argv st) = 1"
    by (auto simp: main_def split: prod.splits sum.splits)
next
  assume o: "omits_required argv"
  from parse_args_omitted [OF o, of st]
  show "fst (main w argv st) = 2" "files (snd (main w argv st)) = files st"
       "calls (snd (main w argv st)) = calls st"
    by (auto simp: main_def split: prod.splits sum.splits)
qed

lemma parse_min: "parse_args argv_min st_init = (Inr args_min, st_init)"
  by (simp add: parse_args_def argv_min_def args_min_def given_def)

lemma readonly_run:
  "fst (create_metadata w_readonly args_min st_init) = Inl (PermissionError, ''Permission denied'')"
  by (simp add: create_metadata_def get_duckdb_info_def get_extension_info_def
        run_git_command_def subprocess_run_def w_readonly_def w_bare_def git_only_def args_min_def
        st_init_def pjoin_def Let_def print_err_def print_out_def warn_unknown_def
        py_print_def py_print_err_def)

theorem exit_codes_witness:
  "fst (main w_bare argv_min st_init) = 0
   \<and> fst (main w_readonly argv_min st_init) = 1
   \<and> fst (main w_bare [(BuildType, ''release''), (Platform, ''linux_amd64'')] st_init) = 2
   \<and> files (snd (main w_bare [(BuildType, ''release''), (Platform, ''linux_amd64'')] st_init))
        = files st_init
   \<and> calls (snd (main w_bare [(BuildType, ''release''), (Platform, ''linux_amd64'')] st_init))
        = calls st_init"
proof -
  have o: "omits_required [(BuildType, ''release''), (Platform, ''linux_amd64'')]"
    by (simp add: omits_required_def parser_arguments_def given_def)
  from exit_codes [where w = w_bare and argv = argv_min and st = st_init and a = args_min
                     and ?st0.0 = st_init and rc = 0]
       exit_codes [where w = w_readonly and argv = argv_min and st = st_init and a = args_min
                     and ?st0.0 = st_init and e = "(PermissionError, ''Permission denied'')"]
       exit_codes [where w = w_bare and st = st_init
                     and argv = "[(BuildType, ''release''), (Platform, ''linux_amd64'')]"]
  show ?thesis using parse_min bare_run readonly_run o by simp
qed

subsection \<open>Splitting an output into tokens\<close>

lemma split_ws_all_space:
  assumes "\<forall>c\<in>set s. py_isspace c"
  shows "split_ws s = []"
proof -
  have d: "dropWhile py_isspace s = []" using assms by simp
  show ?thesis unfolding split_ws.simps [of s] d by simp
qed

lemma split_ws_dropWhile: "split_ws (dropWhile py_isspace s) = split_ws s"
  by (simp add: split_ws.simps [of s] split_ws.simps [of "dropWhile py_isspace s"])

lemma split_ws_append_spaces:
  "\<forall>c\<in>set ws. py_isspace c \<Longrightarrow> split_ws (s @ ws) = split_ws s"
proof (induction s rule: split_ws.induct)
  case (1 s)
  show ?case
  proof (cases "dropWhile py_isspace s")
    case Nil
    then have a: "\<forall>c\<in>set s. py_isspace c" by simp
    then have "\<forall>c\<in>set (s @ ws). py_isspace c"
      using "1.prems" by auto
    then have "split_ws (s @ ws) = []" by (rule split_ws_all_space)
    moreover have "split_ws s = []" using a by (rule split_ws_all_space)
    ultimately show ?thesis by simp
  next
    case (Cons c cs)
    then have "\<exists>x\<in>set s. \<not> py_isspace x"
      by (metis dropWhile_eq_Nil_conv list.distinct(1))
    then have d: "dropWhile py_isspace (s @ ws) = c # cs @ ws"
      using Cons by (auto simp: dropWhile_append1)
    have L: "split_ws (s @ ws) = (c # takeWhile (\<lambda>x. \<not> py_isspace x) (cs @ ws))
                # split_ws (dropWhile (\<lambda>x. \<not> py_isspace x) (cs @ ws))"
      using d by (simp add: split_ws.simps [of "s @ ws"])
    have R: "split_ws s = (c # takeWhile (\<lambda>x. \<not> py_isspace x) cs)
                # split_ws (dropWhile (\<lambda>x. \<not> py_isspace x) cs)"
      using Cons by (simp add: split_ws.simps [of s])
    show ?thesis
    proof (cases "\<forall>x\<in>set cs. \<not> py_isspace x")
      case True
      have tw: "takeWhile (\<lambda>x. \<not> py_isspace x) ws = []"
        using "1.prems" by (cases ws) auto
      have dw: "dropWhile (\<lambda>x. \<not> py_isspace x) ws = ws"
        using "1.prems" by (cases ws) auto
      have t1: "takeWhile (\<lambda>x. \<not> py_isspace x) (cs @ ws) = cs"
        using True tw by (simp add: takeWhile_append2)
      have t2: "dropWhile (\<lambda>x. \<not> py_isspace x) (cs @ ws) = ws"
        using True dw by (simp add: dropWhile_append2)
      have t3: "takeWhile (\<lambda>x. \<not> py_isspace x) cs = cs" using True by simp
      have t4: "dropWhile (\<lambda>x. \<not> py_isspace x) cs = []" using True by simp
      have e1: "split_ws ws = []" using "1.prems" by (rule split_ws_all_space)
      have e2: "split_ws [] = []" by (simp add: split_ws.simps [of "[]"])
      show ?thesis by (simp only: L R t1 t2 t3 t4 e1 e2)
    next
      case False
      then obtain x where x: "x \<in> set cs" "\<not> \<not> py_isspace x" by blast
      have t1: "takeWhile (\<lambda>x. \<not> py_isspace x) (cs @ ws) = takeWhile (\<lambda>x. \<not> py_isspace x) cs"
        using x by (rule takeWhile_append1)
      have t2: "dropWhile (\<lambda>x. \<not> py_isspace x) (cs @ ws)
                       = dropWhile (\<lambda>x. \<not> py_isspace x) cs @ ws"
        using x by (rule dropWhile_append1)
      show ?thesis by (simp only: L R t1 t2 "1.IH" [OF Cons "1.prems"])
    qed
  qed
qed

lemma split_ws_strip: "split_ws (strip s) = split_ws s"
proof -
  define t where "t = dropWhile py_isspace s"
  define ws where "ws = rev (takeWhile py_isspace (rev t))"
  have "rev (dropWhile py_isspace (rev t)) @ rev (takeWhile py_isspace (rev t))
          = rev (takeWhile py_isspace (rev t) @ dropWhile py_isspace (rev t))"
    by (simp only: rev_append)
  also have "\<dots> = t"
    by (simp only: takeWhile_dropWhile_id rev_rev_ident)
  finally have "strip s @ ws = t"
    by (simp only: strip_def t_def ws_def)
  moreover have "\<forall>c\<in>set ws. py_isspace c"
    by (auto simp: ws_def dest: set_takeWhileD)
  ultimately have "split_ws t = split_ws (strip s)"
    using split_ws_append_spaces [of ws "strip s"] by simp
  then show ?thesis by (simp add: t_def split_ws_dropWhile)
qed

lemma split_ws_Nil: "split_ws [] = []"
  by (simp add: split_ws.simps [of "[]"])

lemma split_ws_head_nonempty: "split_ws s = t # ts \<Longrightarrow> t \<noteq> []"
  unfolding split_ws.simps [of s] by (cases "dropWhile py_isspace s") auto

lemma probe_step_absent:
  "path_exists w p = Inr False \<Longrightarrow> probe_binaries w (p # ps) v st = probe_binaries w ps v st"
  by simp

lemma probe_step_hit:
  "probe_hit w p = Some t \<Longrightarrow> probe_binaries w (p # ps) v st = (Inr t, probed p st)"
  by (auto simp: probe_hit_def probe_outcome_def subprocess_run_def probed_def probe_call_def
        first_token_def split_ws_strip split_ws_Nil Let_def
        split: if_splits sum.splits list.splits)

lemma probe_step_caught:
  "probe_caught w p \<Longrightarrow>
     probe_binaries w (p # ps) v st = probe_binaries w ps v (probed p st)"
  by (auto simp: probe_caught_def probe_outcome_def subprocess_run_def probed_def probe_call_def
        first_token_def split_ws_strip split_ws_Nil Let_def
        split: if_splits sum.splits list.splits)

lemma probe_fails_cases:
  "probe_fails w p \<Longrightarrow> path_exists w p = Inr False \<or> probe_caught w p"
  by (auto simp: probe_fails_def probe_caught_def split: sum.splits bool.splits)

lemma all_fail_unknown:
  "list_all (probe_fails w) ps \<Longrightarrow> fst (probe_binaries w ps v st) = Inr v"
proof (induction ps arbitrary: st)
  case Nil
  show ?case by simp
next
  case (Cons p ps)
  then have f: "probe_fails w p" and r: "list_all (probe_fails w) ps" by simp_all
  from probe_fails_cases [OF f] show ?case
  proof
    assume "path_exists w p = Inr False"
    then show ?thesis using Cons.IH [OF r] by (simp add: probe_step_absent del: probe_binaries.simps)
  next
    assume "probe_caught w p"
    then show ?thesis using Cons.IH [OF r] by (simp add: probe_step_caught del: probe_binaries.simps)
  qed
qed

lemma probe_calls:
  "\<exists>cs. calls (snd (probe_binaries w ps v st)) = calls st @ cs
        \<and> list_all (\<lambda>c. timeout c = Some 5) cs"
proof (induction ps arbitrary: st)
  case Nil
  show ?case by simp
next
  case (Cons p ps)
  show ?case
  proof (cases "path_exists w p = Inr True")
    case False
    then have "probe_binaries w (p # ps) v st = probe_binaries w ps v st
               \<or> snd (probe_binaries w (p # ps) v st) = st"
      by (auto split: sum.splits bool.splits)
    then show ?thesis
    proof
      assume "probe_binaries w (p # ps) v st = probe_binaries w ps v st"
      then show ?thesis using Cons.IH [of st] by simp
    next
      assume "snd (probe_binaries w (p # ps) v st) = st"
      then show ?thesis by (intro exI [of _ "[]"]) simp
    qed
  next
    case True
    obtain cs where cs: "calls (snd (probe_binaries w ps v (probed p st))) = calls (probed p st) @ cs"
        "list_all (\<lambda>c. timeout c = Some 5) cs"
      using Cons.IH [of "probed p st"] by blast
    have a: "calls (probed p st) = calls st @ [probe_call p]" "timeout (probe_call p) = Some 5"
      by (simp_all add: probed_def probe_call_def)
    have "probe_binaries w (p # ps) v st = probe_binaries w ps v (probed p st)
          \<or> snd (probe_binaries w (p # ps) v st) = probed p st"
      using True
      by (auto simp: subprocess_run_def probed_def probe_call_def Let_def
            split: sum.splits list.splits)
    then show ?thesis
    proof
      assume "probe_binaries w (p # ps) v st = probe_binaries w ps v (probed p st)"
      then show ?thesis using cs a by (intro exI [of _ "probe_call p # cs"]) simp
    next
      assume "snd (probe_binaries w (p # ps) v st) = probed p st"
      then show ?thesis using a by (intro exI [of _ "[probe_call p]"]) simp
    qed
  qed
qed

lemma probe_single_calls:
  "path_exists w p = Inr True \<Longrightarrow>
     calls (snd (probe_binaries w [p] v st)) = calls st @ [probe_call p]"
  by (auto simp: subprocess_run_def probe_call_def Let_def split: sum.splits list.splits)

lemma first_token_nonempty: "first_token out = Some t \<Longrightarrow> t \<noteq> []"
  by (auto simp: first_token_def split: list.splits dest: split_ws_head_nonempty)

lemma probe_hit_nonempty: "probe_hit w p = Some t \<Longrightarrow> t \<noteq> []"
  by (auto simp: probe_hit_def split: if_splits sum.splits dest: first_token_nonempty)

text \<open>
  C10.  The probe tries \<open>build/<build_type>/duckdb\<close> first and
  \<open>build/<build_type>/duckdb.exe\<close> second.  It stops at the first path whose run exits
  with status zero and gives a (non-empty) first token: the second binary is then not run.
  An existing first binary that exits with a non-zero status, prints no token or raises a
  caught error does not stop it: the loop goes on with the second path, which is run when
  it exists, after the first; so it does when the first binary is missing.
\<close>

theorem probe_order:
  assumes "p1 = pjoin (pjoin (pjoin root ''build'') bt) ''duckdb''"
      and "p2 = pjoin (pjoin (pjoin root ''build'') bt) ''duckdb.exe''"
  shows "binary_paths root bt = [p1, p2]
    \<and> (probe_hit w p1 = Some t \<longrightarrow>
          t \<noteq> [] \<and> probe_binaries w (binary_paths root bt) v st = (Inr t, probed p1 st))
    \<and> (probe_caught w p1 \<longrightarrow>
          probe_binaries w (binary_paths root bt) v st = probe_binaries w [p2] v (probed p1 st))
    \<and> (probe_caught w p1 \<and> path_exists w p2 = Inr True \<longrightarrow>
          calls (snd (probe_binaries w (binary_paths root bt) v st))
            = calls st @ [probe_call p1, probe_call p2])
    \<and> (probe_caught w p1 \<and> probe_hit w p2 = Some t \<longrightarrow>
          fst (probe_binaries w (binary_paths root bt) v st) = Inr t)
    \<and> (path_exists w p1 = Inr False \<longrightarrow>
          probe_binaries w (binary_paths root bt) v st = probe_binaries w [p2] v st)"
proof -
  have b: "binary_paths root bt = [p1, p2]"
    using assms by (simp add: binary_paths_def)
  have h: "probe_hit w p1 = Some t \<Longrightarrow>
             t \<noteq> [] \<and> probe_binaries w [p1, p2] v st = (Inr t, probed p1 st)"
    by (simp add: probe_hit_nonempty probe_step_hit del: probe_binaries.simps)
  have c: "probe_caught w p1 \<Longrightarrow>
             probe_binaries w [p1, p2] v st = probe_binaries w [p2] v (probed p1 st)"
    by (rule probe_step_caught)
  have l: "probe_caught w p1 \<Longrightarrow> path_exists w p2 = Inr True \<Longrightarrow>
             calls (snd (probe_binaries w [p1, p2] v st)) = calls st @ [probe_call p1, probe_call p2]"
    by (simp add: probe_step_caught probe_single_calls probed_def del: probe_binaries.simps)
  have s: "probe_caught w p1 \<Longrightarrow> probe_hit w p2 = Some t \<Longrightarrow>
             fst (probe_binaries w [p1, p2] v st) = Inr t"
    by (simp add: probe_step_caught probe_step_hit del: probe_binaries.simps)
  have a: "path_exists w p1 = Inr False \<Longrightarrow>
             probe_binaries w [p1, p2] v st = probe_binaries w [p2] v st"
    by (rule probe_step_absent)
  show ?thesis unfolding b using h c l s a by blast
qed

text \<open>
  C3 (amended).  When every probe of the two candidate paths fails in one of these ways:
  the existence test finds the binary missing, or the binary is there and running it times
  out, finds no file, is not permitted or exits with a non-zero status; then the probe
  raises nothing and leaves the version at \<open>unknown\<close>, and so does
  \<open>get_duckdb_info\<close> when it returns.  Every run the probe makes is given the
  timeout of 5 seconds.
\<close>

theorem failed_probes_leave_unknown:
  assumes "list_all (probe_fails w) (binary_paths root bt)"
  shows "fst (probe_binaries w (binary_paths root bt) ''unknown'' st) = Inr ''unknown''
       \<and> (case fst (get_duckdb_info w root bt st) of
             Inr info \<Rightarrow> version info = ''unknown'' | Inl e \<Rightarrow> True)
       \<and> list_all (\<lambda>c. timeout c = Some 5)
           (drop (length (calls st))
              (calls (snd (probe_binaries w (binary_paths root bt) ''unknown'' st))))"
proof (intro conjI)
  show "fst (probe_binaries w (binary_paths root bt) ''unknown'' st) = Inr ''unknown''"
    using assms by (rule all_fail_unknown)
next
  have "\<And>s. fst (probe_binaries w (binary_paths root bt) ''unknown'' s) = Inr ''unknown''"
    using assms by (rule all_fail_unknown)
  then have "\<And>s v s'. probe_binaries w (binary_paths root bt) ''unknown'' s = (Inr v, s')
               \<Longrightarrow> v = ''unknown''"
    by (metis fst_conv sum.inject(2))
  then show "case fst (get_duckdb_info w root bt st) of
               Inr info \<Rightarrow> version info = ''unknown'' | Inl e \<Rightarrow> True"
    by (auto simp: get_duckdb_info_def warn_unknown_def Let_def unknown_info_def
          split: sum.splits prod.splits bool.splits)
next
  from probe_calls [of w "binary_paths root bt" "''unknown''" st]
  show "list_all (\<lambda>c. timeout c = Some 5)
           (drop (length (calls st))
              (calls (snd (probe_binaries w (binary_paths root bt) ''unknown'' st))))"
    by auto
qed

lemma first_token_sample:
  "first_token ''v1.5.0-dev1754 (Development Version) c8267cbc21\<newline>'' = Some ''v1.5.0-dev1754''"
  by (simp add: first_token_def split_ws.simps py_isspace_def)

lemma first_token_blank: "first_token ''\<newline>'' = None"
  by (simp add: first_token_def split_ws.simps py_isspace_def)

theorem failed_probes_leave_unknown_witness:
  "list_all (probe_fails (w_built True True (Inl (TimeoutExpired, ''timed out''))
                             (Inr \<lparr>returncode = 1, stdout = []\<rparr>)))
            (binary_paths [''work''] ''release'')
   \<and> fst (probe_binaries (w_built True True (Inl (TimeoutExpired, ''timed out''))
                             (Inr \<lparr>returncode = 1, stdout = []\<rparr>))
            (binary_paths [''work''] ''release'') ''unknown'' st_init) = Inr ''unknown''"
proof -
  have h: "list_all (probe_fails (w_built True True (Inl (TimeoutExpired, ''timed out''))
                             (Inr \<lparr>returncode = 1, stdout = []\<rparr>)))
            (binary_paths [''work''] ''release'')"
    by (simp add: sample_defs probe_fails_def)
  from failed_probes_leave_unknown [OF h, of st_init] show ?thesis using h by simp
qed

text \<open>
  C3 as stated fails for a permission error: when the build directory may not be
  searched, the existence test of the first binary raises \<open>PermissionError\<close> before the
  \<open>try\<close>, and the exception leaves the probe and \<open>get_duckdb_info\<close>.
\<close>

theorem unsearchable_build_counterexample:
  "path_exists w_unsearchable [''work'', ''build'', ''release'', ''duckdb'']
     = Inl (PermissionError, ''Permission denied'')
   \<and> fst (probe_binaries w_unsearchable (binary_paths [''work''] ''release'') ''unknown''
            st_init) = Inl (PermissionError, ''Permission denied'')
   \<and> fst (get_duckdb_info w_unsearchable [''work''] ''release'' st_init)
       = Inl (PermissionError, ''Permission denied'')"
  by (simp add: w_unsearchable_def sample_defs eval_defs)

theorem probe_order_witness:
  "probe_hit (w_built True True printed_version printed_version)
      [''work'', ''build'', ''release'', ''duckdb''] = Some ''v1.5.0-dev1754''
   \<and> calls (snd (probe_binaries (w_built True True printed_version printed_version)
              (binary_paths [''work''] ''release'') ''unknown'' st_init))
        = [probe_call [''work'', ''build'', ''release'', ''duckdb'']]
   \<and> probe_caught (w_built True True (Inr \<lparr>returncode = 0, stdout = []\<rparr>) printed_version)
        [''work'', ''build'', ''release'', ''duckdb'']
   \<and> calls (snd (probe_binaries
                   (w_built True True (Inr \<lparr>returncode = 0, stdout = []\<rparr>) printed_version)
                   (binary_paths [''work''] ''release'') ''unknown'' st_init))
        = [probe_call [''work'', ''build'', ''release'', ''duckdb''],
           probe_call [''work'', ''build'', ''release'', ''duckdb.exe'']]
   \<and> fst (probe_binaries
             (w_built True True (Inr \<lparr>returncode = 0, stdout = []\<rparr>) printed_version)
             (binary_paths [''work''] ''release'') ''unknown'' st_init) = Inr ''v1.5.0-dev1754''"
proof -
  let ?p1 = "[''work'', ''build'', ''release'', ''duckdb'']"
  let ?p2 = "[''work'', ''build'', ''release'', ''duckdb.exe'']"
  let ?w = "w_built True True printed_version printed_version"
  let ?v = "w_built True True (Inr \<lparr>returncode = 0, stdout = []\<rparr>) printed_version"
  have p1: "?p1 = pjoin (pjoin (pjoin [''work''] ''build'') ''release'') ''duckdb''"
    and p2: "?p2 = pjoin (pjoin (pjoin [''work''] ''build'') ''release'') ''duckdb.exe''"
    by (simp_all add: pjoin_def)
  have h1: "probe_hit ?w ?p1 = Some ''v1.5.0-dev1754''"
    by (simp add: sample_defs probe_hit_def first_token_sample)
  have c1: "probe_caught ?v ?p1"
    by (simp add: sample_defs probe_caught_def first_token_def split_ws_Nil)
  have h2: "probe_hit ?v ?p2 = Some ''v1.5.0-dev1754''"
    by (simp add: sample_defs probe_hit_def first_token_sample)
  have e2: "path_exists ?v ?p2 = Inr True"
    by (simp add: sample_defs)
  note A = probe_order [OF p1 p2, of ?w "''v1.5.0-dev1754''" "''unknown''" st_init]
  note B = probe_order [OF p1 p2, of ?v "''v1.5.0-dev1754''" "''unknown''" st_init]
  have r1: "probe_binaries ?w (binary_paths [''work''] ''release'') ''unknown'' st_init
              = (Inr ''v1.5.0-dev1754'', probed ?p1 st_init)"
    using A h1 by blast
  have r2: "calls (snd (probe_binaries ?v (binary_paths [''work''] ''release'') ''unknown''
                          st_init)) = calls st_init @ [probe_call ?p1, probe_call ?p2]"
    using B c1 e2 by blast
  have r3: "fst (probe_binaries ?v (binary_paths [''work''] ''release'') ''unknown'' st_init)
              = Inr ''v1.5.0-dev1754''"
    using B c1 h2 by blast
  have "calls (snd (probe_binaries ?w (binary_paths [''work''] ''release'') ''unknown''
                       st_init)) = [probe_call ?p1]"
    unfolding r1 by (simp add: probed_def st_init_def)
  moreover have "calls (snd (probe_binaries ?v (binary_paths [''work''] ''release'') ''unknown''
                          st_init)) = [probe_call ?p1, probe_call ?p2]"
    unfolding r2 by (simp add: st_init_def)
  ultimately show ?thesis using h1 c1 r3 by blast
qed

subsection \<open>The version a binary prints\<close>

lemma probe_result_of_info:
  assumes "get_duckdb_info w root bt st = (Inr info, st')"
      and "path_exists w (pjoin root ''duckdb'') = Inr True"
      and "path_exists w (pjoin (pjoin root ''duckdb'') ''.git'') = Inr True"
  shows "\<exists>s. probe_binaries w (binary_paths root bt) ''unknown'' s = (Inr (version info), st')"
  using assms
  by (auto simp: get_duckdb_info_def Let_def split: prod.splits sum.splits)

lemma probe_hit_None_cases:
  "probe_hit w p = None \<Longrightarrow>
     path_exists w p = Inr False \<or> probe_caught w p
       \<or> (\<exists>e. fst (probe_binaries w (p # ps) v s) = Inl e)"
  by (auto simp: probe_hit_def probe_caught_def probe_outcome_def subprocess_run_def Let_def
        split: if_splits sum.splits bool.splits)

text \<open>
  C7 (amended).  When a located binary is run with \<open>--version\<close> and exits with status
  zero, and its output has a first whitespace-separated token, \<open>duckdb_version\<close> is that
  token.  The second candidate is run only when the first gave no version.
\<close>

theorem first_token_becomes_version:
  assumes "get_duckdb_info w root bt st = (Inr info, st')"
      and "path_exists w (pjoin root ''duckdb'') = Inr True"
      and "path_exists w (pjoin (pjoin root ''duckdb'') ''.git'') = Inr True"
      and "p1 = pjoin (pjoin (pjoin root ''build'') bt) ''duckdb''"
      and "p2 = pjoin (pjoin (pjoin root ''build'') bt) ''duckdb.exe''"
  shows "(path_exists w p1 = Inr True \<and> probe_outcome w p1 = Inr r \<and> returncode r = 0
            \<and> first_token (stdout r) = Some t \<longrightarrow> version info = t)
       \<and> (probe_hit w p1 = None \<and> path_exists w p2 = Inr True \<and> probe_outcome w p2 = Inr r
            \<and> returncode r = 0 \<and> first_token (stdout r) = Some t \<longrightarrow> version info = t)"
proof -
  obtain s where s: "probe_binaries w [p1, p2] ''unknown'' s = (Inr (version info), st')"
    using probe_result_of_info [OF assms(1-3)] assms(4,5) by (auto simp: binary_paths_def)
  have one: "version info = t"
    if "path_exists w p1 = Inr True" "probe_outcome w p1 = Inr r" "returncode r = 0"
       "first_token (stdout r) = Some t"
  proof -
    have "probe_hit w p1 = Some t" using that by (simp add: probe_hit_def)
    from probe_step_hit [OF this, of "[p2]" "''unknown''" s] s show ?thesis by simp
  qed
  have two: "version info = t"
    if n: "probe_hit w p1 = None" and "path_exists w p2 = Inr True" "probe_outcome w p2 = Inr r"
       "returncode r = 0" "first_token (stdout r) = Some t"
  proof -
    have h2: "probe_hit w p2 = Some t" using that by (simp add: probe_hit_def)
    from probe_hit_None_cases [OF n, of "[p2]" "''unknown''" s] s
    have "path_exists w p1 = Inr False \<or> probe_caught w p1" by auto
    then have "\<exists>s1. probe_binaries w [p1, p2] ''unknown'' s = probe_binaries w [p2] ''unknown'' s1"
      using probe_step_absent [of w p1 "[p2]" "''unknown''" s]
            probe_step_caught [of w p1 "[p2]" "''unknown''" s] by metis
    then obtain s1 where "probe_binaries w [p2] ''unknown'' s1 = (Inr (version info), st')"
      using s by metis
    with probe_step_hit [OF h2, of "[]" "''unknown''" s1] show ?thesis by simp
  qed
  show ?thesis using one two by blast
qed


text \<open>
  C7 as stated fails: a binary that exits with status zero and prints only a newline has
  a non-empty output and no token, and the version stays \<open>unknown\<close>.
\<close>

theorem blank_output_counterexample:
  "path_exists w_blank [''work'', ''build'', ''release'', ''duckdb''] = Inr True
   \<and> probe_outcome w_blank [''work'', ''build'', ''release'', ''duckdb'']
       = Inr \<lparr>returncode = 0, stdout = ''\<newline>''\<rparr>
   \<and> ''\<newline>'' \<noteq> []
   \<and> first_token ''\<newline>'' = None
   \<and> fst (get_duckdb_info w_blank [''work''] ''release'' st_init)
       = Inr \<lparr>git_describe = ''v1.4.0-0-gb8a06e4a22'', version = ''unknown'',
               commit = ''4f2a9c01d3e5b7a86c0f1e2d3c4b5a6978877665''\<rparr>"
  by (simp add: w_blank_def sample_defs eval_defs split_ws_Nil first_token_blank)

lemma release_info:
  "fst (get_duckdb_info w_release [''work''] ''release'' st_init)
     = Inr \<lparr>git_describe = ''v1.4.0-0-gb8a06e4a22'', version = ''v1.5.0-dev1754'',
             commit = ''4f2a9c01d3e5b7a86c0f1e2d3c4b5a6978877665''\<rparr>"
  by (simp add: w_release_def sample_defs eval_defs split_ws.simps)

theorem first_token_becomes_version_witness:
  "path_exists w_release [''work'', ''build'', ''release'', ''duckdb''] = Inr True
   \<and> probe_outcome w_release [''work'', ''build'', ''release'', ''duckdb''] = printed_version
   \<and> first_token ''v1.5.0-dev1754 (Development Version) c8267cbc21\<newline>''
        = Some ''v1.5.0-dev1754''
   \<and> fst (get_duckdb_info w_release [''work''] ''release'' st_init)
        = Inr \<lparr>git_describe = ''v1.4.0-0-gb8a06e4a22'', version = ''v1.5.0-dev1754'',
                commit = ''4f2a9c01d3e5b7a86c0f1e2d3c4b5a6978877665''\<rparr>"
proof -
  let ?info = "\<lparr>git_describe = ''v1.4.0-0-gb8a06e4a22'', version = ''v1.5.0-dev1754'',
                commit = ''4f2a9c01d3e5b7a86c0f1e2d3c4b5a6978877665''\<rparr>"
  let ?p1 = "[''work'', ''build'', ''release'', ''duckdb'']"
  let ?p2 = "[''work'', ''build'', ''release'', ''duckdb.exe'']"
  let ?r = "\<lparr>returncode = 0,
             stdout = ''v1.5.0-dev1754 (Development Version) c8267cbc21\<newline>''\<rparr>"
  have g: "get_duckdb_info w_release [''work''] ''release'' st_init
             = (Inr ?info, snd (get_duckdb_info w_release [''work''] ''release'' st_init))"
    using release_info by (simp add: prod_eq_iff)
  have d: "path_exists w_release (pjoin [''work''] ''duckdb'') = Inr True"
          "path_exists w_release (pjoin (pjoin [''work''] ''duckdb'') ''.git'') = Inr True"
    by (simp_all add: w_release_def sample_defs)
  have p: "?p1 = pjoin (pjoin (pjoin [''work''] ''build'') ''release'') ''duckdb''"
          "?p2 = pjoin (pjoin (pjoin [''work''] ''build'') ''release'') ''duckdb.exe''"
    by (simp_all add: pjoin_def)
  have e: "path_exists w_release ?p1 = Inr True" by (simp add: w_release_def sample_defs)
  have o: "probe_outcome w_release ?p1 = Inr ?r" by (simp add: w_release_def sample_defs)
  have "version ?info = ''v1.5.0-dev1754''"
    using first_token_becomes_version [OF g d p, of ?r "''v1.5.0-dev1754''"] e o
          first_token_sample by simp
  then show ?thesis using e o first_token_sample release_info
    by (simp add: printed_version_def)
qed

subsection \<open>The version of the extension\<close>

lemma run_git_value:
  "fst (run_git_command w dir c st) =
     (case git_outcome w dir c of
        Inl e \<Rightarrow> if fst e \<in> {CalledProcessError, FileNotFoundError} then Inr ''unknown'' else Inl e
      | Inr r \<Rightarrow> if returncode r \<noteq> 0 then Inr ''unknown'' else Inr (strip (stdout r)))"
  by (simp add: run_git_command_def subprocess_run_def git_outcome_def Let_def split: sum.splits)

lemma ext_version_value:
  assumes "get_extension_info w root st = (Inr info, st')"
  shows "\<exists>tag short. (\<forall>s. fst (run_git_command w root tag_cmd s) = Inr tag)
           \<and> (\<forall>s. fst (run_git_command w root short_cmd s) = Inr short)
           \<and> ext_version info = (if tag \<noteq> [] \<and> tag \<noteq> ''unknown'' then tag else short)"
proof -
  from assms obtain tag s1 commit_hash s2 short where
    t: "run_git_command w root tag_cmd st = (Inr tag, s1)" and
    h: "run_git_command w root head_cmd s1 = (Inr commit_hash, s2)" and
    s: "run_git_command w root short_cmd s2 = (Inr short, st')" and
    v: "ext_version info = (if tag \<noteq> [] \<and> tag \<noteq> ''unknown'' then tag else short)"
    by (auto simp: get_extension_info_def tag_cmd_def head_cmd_def short_cmd_def
          split: prod.splits sum.splits)
  have "fst (run_git_command w root tag_cmd x) = fst (run_git_command w root tag_cmd st)" for x
    by (simp only: run_git_value)
  then have "\<And>x. fst (run_git_command w root tag_cmd x) = Inr tag"
    using t by simp
  moreover
  have "fst (run_git_command w root short_cmd x) = fst (run_git_command w root short_cmd s2)" for x
    by (simp only: run_git_value)
  then have "\<And>x. fst (run_git_command w root short_cmd x) = Inr short"
    using s by simp
  ultimately show ?thesis using v by blast
qed

text \<open>
  C5.  When no tag points at the current commit (the tag query succeeds and lists
  nothing), \<open>extension_version\<close> is what the query for the short commit hash gives:
  the hash it prints, stripped.  And \<open>extension_version\<close> is never empty, given what
  git does inside a repository: a successful query for the hash prints the hash.
\<close>

theorem untagged_version_is_short_commit:
  assumes "get_extension_info w root st = (Inr info, st')"
  shows "(no_tag_at_head w root \<longrightarrow>
            fst (run_git_command w root short_cmd s) = Inr (ext_version info))
       \<and> (no_tag_at_head w root \<and> git_outcome w root short_cmd = Inr r \<and> returncode r = 0
            \<longrightarrow> ext_version info = strip (stdout r))
       \<and> (hash_not_blank w root \<longrightarrow> ext_version info \<noteq> [])"
proof -
  from ext_version_value [OF assms] obtain tag short where
    t: "\<And>x. fst (run_git_command w root tag_cmd x) = Inr tag" and
    s: "\<And>x. fst (run_git_command w root short_cmd x) = Inr short" and
    v: "ext_version info = (if tag \<noteq> [] \<and> tag \<noteq> ''unknown'' then tag else short)"
    by blast
  have a: "no_tag_at_head w root \<Longrightarrow> tag = []"
    using t [of st] by (auto simp: run_git_value no_tag_at_head_def split: sum.splits if_splits)
  have b: "git_outcome w root short_cmd = Inr r \<Longrightarrow> returncode r = 0 \<Longrightarrow> short = strip (stdout r)"
    using s [of st] by (simp add: run_git_value)
  have c: "hash_not_blank w root \<Longrightarrow> short \<noteq> []"
    using s [of st] by (auto simp: run_git_value hash_not_blank_def split: sum.splits if_splits)
  show ?thesis using a b c s v by auto
qed

text \<open>
  C9.  In the fallback: a tag query that fails (the helper gives \<open>unknown\<close>) and a tag
  query that lists nothing both make \<open>extension_version\<close> the result of the
  short-commit query; and then \<open>extension_version\<close> is \<open>unknown\<close> exactly when the
  short-commit query fails (git prints hashes, not the word \<open>unknown\<close>).
\<close>

theorem failed_tag_query_falls_back:
  assumes "get_extension_info w root st = (Inr info, st')"
      and "query_fails w root tag_cmd \<or> no_tag_at_head w root"
  shows "fst (run_git_command w root short_cmd s) = Inr (ext_version info)
       \<and> (hash_not_unknown w root \<longrightarrow>
            (ext_version info = ''unknown'' \<longleftrightarrow> query_fails w root short_cmd))"
proof -
  from ext_version_value [OF assms(1)] obtain tag short where
    t: "\<And>x. fst (run_git_command w root tag_cmd x) = Inr tag" and
    s: "\<And>x. fst (run_git_command w root short_cmd x) = Inr short" and
    v: "ext_version info = (if tag \<noteq> [] \<and> tag \<noteq> ''unknown'' then tag else short)"
    by blast
  have a: "tag = [] \<or> tag = ''unknown''"
    using t [of st] assms(2)
    by (auto simp: run_git_value no_tag_at_head_def query_fails_def split: sum.splits if_splits)
  have b: "hash_not_unknown w root \<Longrightarrow> (short = ''unknown'' \<longleftrightarrow> query_fails w root short_cmd)"
    using s [of st]
    by (auto simp: run_git_value hash_not_unknown_def query_fails_def split: sum.splits if_splits)
  show ?thesis using a b s v by auto
qed

lemma bare_extension_info:
  "fst (get_extension_info w_bare [''work''] st_init)
     = Inr \<lparr>ext_version = ''4f2a9c0'', ext_commit = ''4f2a9c01d3e5b7a86c0f1e2d3c4b5a6978877665''\<rparr>"
  by (simp add: sample_defs eval_defs)

lemma outside_extension_info:
  "fst (get_extension_info w_outside [''work''] st_init)
     = Inr \<lparr>ext_version = ''unknown'', ext_commit = ''unknown''\<rparr>"
  by (simp add: w_outside_def sample_defs eval_defs)

theorem untagged_version_is_short_commit_witness:
  "no_tag_at_head w_bare [''work''] \<and> hash_not_blank w_bare [''work'']
   \<and> git_outcome w_bare [''work''] short_cmd = Inr \<lparr>returncode = 0, stdout = ''4f2a9c0\<newline>''\<rparr>
   \<and> fst (run_git_command w_bare [''work''] short_cmd st_init) = Inr ''4f2a9c0''
   \<and> fst (get_extension_info w_bare [''work''] st_init)
        = Inr \<lparr>ext_version = ''4f2a9c0'',
                ext_commit = ''4f2a9c01d3e5b7a86c0f1e2d3c4b5a6978877665''\<rparr>"
proof -
  let ?info = "\<lparr>ext_version = ''4f2a9c0'',
                ext_commit = ''4f2a9c01d3e5b7a86c0f1e2d3c4b5a6978877665''\<rparr>"
  have g: "get_extension_info w_bare [''work''] st_init
             = (Inr ?info, snd (get_extension_info w_bare [''work''] st_init))"
    using bare_extension_info by (simp add: prod_eq_iff)
  have n: "no_tag_at_head w_bare [''work'']"
    by (simp add: no_tag_at_head_def git_outcome_def tag_cmd_def sample_defs strip_def)
  have b: "hash_not_blank w_bare [''work'']"
    by (simp add: hash_not_blank_def git_outcome_def short_cmd_def sample_defs strip_def
          py_isspace_def)
  have o: "git_outcome w_bare [''work''] short_cmd
             = Inr \<lparr>returncode = 0, stdout = ''4f2a9c0\<newline>''\<rparr>"
    by (simp add: git_outcome_def short_cmd_def sample_defs)
  from untagged_version_is_short_commit [OF g, of st_init
         "\<lparr>returncode = 0, stdout = ''4f2a9c0\<newline>''\<rparr>"] n b o
  have "fst (run_git_command w_bare [''work''] short_cmd st_init) = Inr (ext_version ?info)"
    by blast
  then show ?thesis using n b o bare_extension_info by simp
qed

theorem failed_tag_query_falls_back_witness:
  "query_fails w_outside [''work''] tag_cmd \<and> hash_not_unknown w_outside [''work'']
   \<and> query_fails w_outside [''work''] short_cmd
   \<and> fst (run_git_command w_outside [''work''] short_cmd st_init) = Inr ''unknown''
   \<and> fst (get_extension_info w_outside [''work''] st_init)
        = Inr \<lparr>ext_version = ''unknown'', ext_commit = ''unknown''\<rparr>"
proof -
  let ?info = "\<lparr>ext_version = ''unknown'', ext_commit = ''unknown''\<rparr>"
  have g: "get_extension_info w_outside [''work''] st_init
             = (Inr ?info, snd (get_extension_info w_outside [''work''] st_init))"
    using outside_extension_info by (simp add: prod_eq_iff)
  have t: "query_fails w_outside [''work''] tag_cmd"
    by (simp add: query_fails_def git_outcome_def w_outside_def)
  have u: "hash_not_unknown w_outside [''work'']"
    by (simp add: hash_not_unknown_def git_outcome_def w_outside_def)
  from failed_tag_query_falls_back [OF g disjI1 [OF t], of st_init] u
  have "fst (run_git_command w_outside [''work''] short_cmd st_init) = Inr (ext_version ?info)"
       "ext_version ?info = ''unknown'' \<longleftrightarrow> query_fails w_outside [''work''] short_cmd"
    by blast+
  then show ?thesis using t u outside_extension_info by simp
qed

subsection \<open>A missing dependency\<close>

lemma get_duckdb_info_missing:
  "duckdb_missing w \<Longrightarrow>
     get_duckdb_info w (cwd w) bt st = warn_unknown w (duckdb_warning w) st"
  by (auto simp: duckdb_missing_def duckdb_warning_def get_duckdb_info_def Let_def)

lemma warn_unknown_cases:
  "warn_unknown w msg st = (r, st') \<Longrightarrow>
     (r = Inr unknown_info \<and> st' = print_err msg st \<and> stderr_write w msg = None)
     \<or> (\<exists>e. r = Inl e \<and> st' = st)"
  by (auto simp: warn_unknown_def py_print_err_def split: option.splits)

lemma run_git_preserves:
  "run_git_command w dir c s = (r, s') \<Longrightarrow> err_log s' = err_log s \<and> files s' = files s"
  by (auto simp: run_git_command_def subprocess_run_def Let_def split: sum.splits if_splits)

lemma run_git_no_raise:
  "\<not> query_raises w dir c \<Longrightarrow> \<exists>v s'. run_git_command w dir c s = (Inr v, s')"
  by (auto simp: query_raises_def git_outcome_def run_git_command_def subprocess_run_def Let_def
        split: sum.splits)

lemma get_extension_info_preserves:
  assumes "get_extension_info w root s = (r, s')"
  shows "err_log s' = err_log s \<and> files s' = files s"
proof -
  obtain r1 s1 where a: "run_git_command w root tag_cmd s = (r1, s1)" by fastforce
  obtain r2 s2 where b: "run_git_command w root head_cmd s1 = (r2, s2)" by fastforce
  obtain r3 s3 where c: "run_git_command w root short_cmd s2 = (r3, s3)" by fastforce
  note p = run_git_preserves [OF a] run_git_preserves [OF b] run_git_preserves [OF c]
  have "s' = s1 \<or> s' = s2 \<or> s' = s3"
    using assms a b c
    by (auto simp: get_extension_info_def tag_cmd_def head_cmd_def short_cmd_def
          split: sum.splits)
  then show ?thesis using p by auto
qed

lemma get_extension_info_no_raise:
  assumes "\<not> query_raises w root tag_cmd" "\<not> query_raises w root head_cmd"
          "\<not> query_raises w root short_cmd"
  shows "\<exists>ei s'. get_extension_info w root s = (Inr ei, s')"
proof -
  obtain v1 s1 where a: "run_git_command w root tag_cmd s = (Inr v1, s1)"
    using run_git_no_raise [OF assms(1)] by blast
  obtain v2 s2 where b: "run_git_command w root head_cmd s1 = (Inr v2, s2)"
    using run_git_no_raise [OF assms(2)] by blast
  obtain v3 s3 where c: "run_git_command w root short_cmd s2 = (Inr v3, s3)"
    using run_git_no_raise [OF assms(3)] by blast
  show ?thesis using a b c
    by (simp add: get_extension_info_def tag_cmd_def head_cmd_def short_cmd_def)
qed

lemma create_metadata_missing:
  assumes m: "duckdb_missing w" and c: "create_metadata w a st = (Inr rc, st')"
  shows "duckdb_warning w \<in> set (err_log st')
       \<and> (\<exists>ei. files st' (output_file (cwd w) (build_type a))
                  = Some (Json (build_metadata w a unknown_info ei)))"
proof -
  from c obtain root where g: "getcwd w = Inr root"
    by (cases "getcwd w") (auto simp: create_metadata_def)
  then have root: "cwd w = root" by (simp add: cwd_def)
  obtain r1 s1 where d: "get_duckdb_info w root (build_type a) st = (r1, s1)" by fastforce
  then have "warn_unknown w (duckdb_warning w) st = (r1, s1)"
    using get_duckdb_info_missing [OF m, of "build_type a" st] root by simp
  from warn_unknown_cases [OF this] c g d
  have r1: "r1 = Inr unknown_info" and s1: "s1 = print_err (duckdb_warning w) st"
    by (auto simp: create_metadata_def)
  obtain r2 s2 where e: "get_extension_info w root s1 = (r2, s2)" by fastforce
  have l: "err_log s2 = err_log st @ [duckdb_warning w]"
    using get_extension_info_preserves [OF e] s1 by (simp add: print_err_def)
  show ?thesis
    using c g d r1 e l root
    by (auto simp: create_metadata_def Let_def output_file_def py_print_def print_out_def
          split: sum.splits option.splits)
qed

lemma create_metadata_rest:
  assumes m: "duckdb_missing w" and r: "rest_succeeds w (build_type a)"
      and o: "\<forall>x. stdout_write w x = None"
  shows "fst (create_metadata w a st) = Inr 0"
proof -
  have g: "getcwd w = Inr (cwd w)" using r by (simp add: rest_succeeds_def)
  have d: "get_duckdb_info w (cwd w) (build_type a) st
             = (Inr unknown_info, print_err (duckdb_warning w) st)"
    using get_duckdb_info_missing [OF m, of "build_type a" st] r
    by (simp add: rest_succeeds_def warn_unknown_def py_print_err_def)
  obtain ei s2 where e:
    "get_extension_info w (cwd w) (print_err (duckdb_warning w) st) = (Inr ei, s2)"
    using get_extension_info_no_raise [of w "cwd w"] r by (fastforce simp: rest_succeeds_def)
  show ?thesis
    using r g d e o
    by (simp add: create_metadata_def Let_def output_file_def py_print_def rest_succeeds_def)
qed

lemma unknown_fields:
  "field (build_metadata w a unknown_info ei) ''duckdb_version'' = Some (JString ''unknown'')
   \<and> field (build_metadata w a unknown_info ei) ''duckdb_git_describe'' = Some (JString ''unknown'')
   \<and> field (build_metadata w a unknown_info ei) ''duckdb_commit'' = Some (JString ''unknown'')"
  by (simp add: field_def build_metadata_def unknown_info_def)

text \<open>
  C2.  When the existence test finds no \<open>duckdb\<close> directory under the working
  directory, or finds the directory and no \<open>.git\<close> entry in it, the look at the
  dependency prints a warning on standard error and gives \<open>unknown\<close> for the version,
  the description and the commit; every run that exits with status 0 has printed the
  warning and written these three values; and the process still exits with status 0,
  nothing else being amiss (the working directory, the three queries on the extension's
  repository, the directory and the file, the writes to standard error and output).
\<close>

theorem missing_duckdb_is_recoverable:
  assumes "duckdb_missing w"
  shows "(stderr_write w (duckdb_warning w) = None \<longrightarrow>
            get_duckdb_info w (cwd w) bt st
              = (Inr unknown_info, print_err (duckdb_warning w) st))
     \<and> (parse_args argv st = (Inr a, st0) \<and> fst (main w argv st) = 0 \<longrightarrow>
          duckdb_warning w \<in> set (err_log (snd (main w argv st)))
          \<and> (case files (snd (main w argv st)) (output_file (cwd w) (build_type a)) of
               Some (Json md) \<Rightarrow>
                 field md ''duckdb_version'' = Some (JString ''unknown'')
                 \<and> field md ''duckdb_git_describe'' = Some (JString ''unknown'')
                 \<and> field md ''duckdb_commit'' = Some (JString ''unknown'')
             | _ \<Rightarrow> False))
     \<and> (parse_args argv st = (Inr a, st0) \<and> rest_succeeds w (build_type a)
          \<and> (\<forall>x. stdout_write w x = None) \<longrightarrow>
          fst (main w argv st) = 0)"
proof (intro conjI impI)
  assume "stderr_write w (duckdb_warning w) = None"
  then show "get_duckdb_info w (cwd w) bt st
               = (Inr unknown_info, print_err (duckdb_warning w) st)"
    using get_duckdb_info_missing [OF assms, of bt st]
    by (simp add: warn_unknown_def py_print_err_def)
next
  assume h: "parse_args argv st = (Inr a, st0) \<and> fst (main w argv st) = 0"
  obtain r s1 where c: "create_metadata w a st0 = (r, s1)" by fastforce
  from h c obtain rc where rc: "r = Inr rc" and ms: "main w argv st = (rc, s1)"
    by (cases r) (auto simp: main_def split: prod.splits)
  from create_metadata_missing [OF assms c [unfolded rc]] obtain ei where
    w: "duckdb_warning w \<in> set (err_log s1)" and
    f: "files s1 (output_file (cwd w) (build_type a))
          = Some (Json (build_metadata w a unknown_info ei))"
    by blast
  show "duckdb_warning w \<in> set (err_log (snd (main w argv st)))"
    using w ms by simp
  show "case files (snd (main w argv st)) (output_file (cwd w) (build_type a)) of
          Some (Json md) \<Rightarrow>
            field md ''duckdb_version'' = Some (JString ''unknown'')
            \<and> field md ''duckdb_git_describe'' = Some (JString ''unknown'')
            \<and> field md ''duckdb_commit'' = Some (JString ''unknown'')
        | _ \<Rightarrow> False"
    using f ms unknown_fields [of w a ei] by simp
next
  assume h: "parse_args argv st = (Inr a, st0) \<and> rest_succeeds w (build_type a)
               \<and> (\<forall>x. stdout_write w x = None)"
  then show "fst (main w argv st) = 0"
    using create_metadata_rest [OF assms, of a st0]
    by (auto simp: main_def split: prod.splits sum.splits)
qed

theorem missing_duckdb_is_recoverable_witness:
  "duckdb_missing w_bare
   \<and> parse_args argv_min st_init = (Inr args_min, st_init)
   \<and> rest_succeeds w_bare (build_type args_min)
   \<and> fst (get_duckdb_info w_bare (cwd w_bare) ''release'' st_init) = Inr unknown_info
   \<and> err_log (snd (get_duckdb_info w_bare (cwd w_bare) ''release'' st_init))
        = [''Warning: DuckDB submodule not found at /work/duckdb'']
   \<and> fst (main w_bare argv_min st_init) = 0
   \<and> duckdb_warning w_bare \<in> set (err_log (snd (main w_bare argv_min st_init)))"
proof -
  have m: "duckdb_missing w_bare"
    by (simp add: duckdb_missing_def w_bare_def)
  have r: "rest_succeeds w_bare (build_type args_min)"
    by (simp add: rest_succeeds_def query_raises_def git_outcome_def tag_cmd_def head_cmd_def
          short_cmd_def w_bare_def git_only_def cwd_def)
  have o: "\<forall>x. stdout_write w_bare x = None" "stderr_write w_bare (duckdb_warning w_bare) = None"
    by (simp_all add: w_bare_def)
  have dw: "duckdb_warning w_bare = ''Warning: DuckDB submodule not found at /work/duckdb''"
    by (simp add: duckdb_warning_def w_bare_def cwd_def pjoin_def str_path_def)
  note T = missing_duckdb_is_recoverable [OF m, of "''release''" st_init argv_min args_min st_init]
  have g: "get_duckdb_info w_bare (cwd w_bare) ''release'' st_init
             = (Inr unknown_info, print_err (duckdb_warning w_bare) st_init)"
    using T o by blast
  have z: "fst (main w_bare argv_min st_init) = 0"
    using T parse_min r o by blast
  have e: "duckdb_warning w_bare \<in> set (err_log (snd (main w_bare argv_min st_init)))"
    using T parse_min z by blast
  have "err_log (snd (get_duckdb_info w_bare (cwd w_bare) ''release'' st_init))
          = [''Warning: DuckDB submodule not found at /work/duckdb'']"
    unfolding g by (simp add: print_err_def dw st_init_def)
  moreover have "fst (get_duckdb_info w_bare (cwd w_bare) ''release'' st_init) = Inr unknown_info"
    unfolding g by simp
  ultimately show ?thesis using m r parse_min z e by blast
qed

end
